theory Spec2Isabelle
  imports Main
begin

section \<open>JavaScript numbers\<close>

text \<open>
  A JavaScript number is an IEEE 754 double. Every finite double is an integer multiple
  of the smallest positive double, \<^verbatim>\<open>2^-1074\<close>: \<open>Fin n\<close> is the number
  \<^verbatim>\<open>n * 2^-1074\<close>, and it is a double when \<open>n\<close> has at most 53 significant bits and
  is below \<^verbatim>\<open>2^2098\<close> in size. The two zeros are one value, \<open>Fin 0\<close>: both are
  falsy and both add like zero, so the handler cannot tell them apart. A fraction such
  as 1.5 is \<open>Fin (3 * 2 ^ 1073)\<close>; \<open>num i\<close> is the integer \<open>i\<close>, a double when
  \<open>i\<close> has at most 53 significant bits.
\<close>

datatype jsnum = NaN | PosInf | NegInf | Fin int

definition num :: "int \<Rightarrow> jsnum" where
  "num i = Fin (i * 2 ^ 1074)"

text \<open>The number of significant bits of a positive integer.\<close>

fun bits :: "int \<Rightarrow> nat" where
  "bits a = (if a \<le> 0 then 0 else Suc (bits (a div 2)))"

declare bits.simps [simp del]

text \<open>
  Rounding to the nearest double, ties to the even significand: an integer of more
  than 53 bits loses its low \<open>s\<close> bits, \<^verbatim>\<open>a / 2^s\<close> being rounded to the nearest
  integer, and a result of \<^verbatim>\<open>2^1024\<close> or more overflows to an infinity.
\<close>

definition roundHalfEven :: "int \<Rightarrow> nat \<Rightarrow> int" where
  "roundHalfEven a s =
     (let q = a div 2 ^ s; r = a mod 2 ^ s; h = 2 ^ (s - 1)
      in if h < r \<or> (r = h \<and> odd q) then q + 1 else q)"

definition toDouble :: "int \<Rightarrow> jsnum" where
  "toDouble n =
     (let a = \<bar>n\<bar>; s = bits a - 53
      in if bits a \<le> 53 then Fin n
         else
           (let r = roundHalfEven a s * 2 ^ s
            in if 2 ^ 2098 \<le> r then (if n < 0 then NegInf else PosInf)
               else Fin (if n < 0 then - r else r)))"

text \<open>\<^verbatim>\<open>a + b\<close> of two numbers: the exact sum of two doubles, rounded.\<close>

fun numAdd :: "jsnum \<Rightarrow> jsnum \<Rightarrow> jsnum" where
  "numAdd NaN y = NaN"
| "numAdd x NaN = NaN"
| "numAdd PosInf NegInf = NaN"
| "numAdd NegInf PosInf = NaN"
| "numAdd PosInf y = PosInf"
| "numAdd x PosInf = PosInf"
| "numAdd NegInf y = NegInf"
| "numAdd x NegInf = NegInf"
| "numAdd (Fin a) (Fin b) = toDouble (a + b)"

section \<open>JavaScript values and objects\<close>

text \<open>
  The handler of \<^verbatim>\<open>src/pages/api/public/generations.ts\<close> works on untyped JSON: the
  request body, the objects the schemas return and the \<^verbatim>\<open>data\<close> objects handed to the
  store. They are modelled by one datatype of JavaScript values. An object is the list of
  its own properties in insertion order, a key occurring at most once in the objects the
  model builds; a property whose value is \<open>JUndefined\<close> is a key that is present and
  holds \<^verbatim>\<open>undefined\<close>.
\<close>

datatype jsval =
    JUndefined
  | JNull
  | JBool bool
  | JNum jsnum
  | JStr string
  | JDate string
  | JArr "jsval list"
  | JObj "(string \<times> jsval) list"

text \<open>
  Truthiness, as \<^verbatim>\<open>x ? a : b\<close>, \<^verbatim>\<open>!x\<close> and \<^verbatim>\<open>x || y\<close> test it: of the numbers,
  zero and \<^verbatim>\<open>NaN\<close> are falsy.
\<close>

fun truthy :: "jsval \<Rightarrow> bool" where
  "truthy JUndefined = False"
| "truthy JNull = False"
| "truthy (JBool b) = b"
| "truthy (JNum n) = (n \<noteq> Fin 0 \<and> n \<noteq> NaN)"
| "truthy (JStr s) = (s \<noteq> [])"
| "truthy (JDate s) = True"
| "truthy (JArr xs) = True"
| "truthy (JObj kvs) = True"

definition isNullish :: "jsval \<Rightarrow> bool" where
  "isNullish v = (v = JNull \<or> v = JUndefined)"

text \<open>\<^verbatim>\<open>a ?? b\<close> and \<^verbatim>\<open>a || b\<close>.\<close>

definition nullishCoalesce :: "jsval \<Rightarrow> jsval \<Rightarrow> jsval" where
  "nullishCoalesce a b = (if isNullish a then b else a)"

definition jsOr :: "jsval \<Rightarrow> jsval \<Rightarrow> jsval" where
  "jsOr a b = (if truthy a then a else b)"

text \<open>
  \<^verbatim>\<open>a + b\<close>. Both operands are numbers wherever the handler adds (the schema has
  checked them, and \<^verbatim>\<open>?? 0\<close> has replaced a missing one); the last equation stands
  for JavaScript's coercions, which the handler never reaches.
\<close>

fun jsAdd :: "jsval \<Rightarrow> jsval \<Rightarrow> jsval" where
  "jsAdd (JNum a) (JNum b) = JNum (numAdd a b)"
| "jsAdd a b = JUndefined"

text \<open>\<^verbatim>\<open>new Date(s)\<close> of a string; the handler calls it on checked datetime strings only.\<close>

fun newDate :: "jsval \<Rightarrow> jsval" where
  "newDate (JStr s) = JDate s"
| "newDate v = JDate []"

text \<open>
  \<^verbatim>\<open>Object.entries\<close>, \<^verbatim>\<open>Object.fromEntries\<close>, \<^verbatim>\<open>key in obj\<close>, \<^verbatim>\<open>obj.key\<close>. A key the
  object does not have reads as \<^verbatim>\<open>undefined\<close>. The handler reads properties of
  objects only (a parsed payload, its \<^verbatim>\<open>usage\<close> behind the truthiness test); on
  any other value \<open>getProp\<close> gives \<^verbatim>\<open>undefined\<close> as well.
\<close>

fun entries :: "jsval \<Rightarrow> (string \<times> jsval) list" where
  "entries (JObj kvs) = kvs"
| "entries v = []"

definition hasKey :: "jsval \<Rightarrow> string \<Rightarrow> bool" where
  "hasKey obj k = (k \<in> fst ` set (entries obj))"

definition getProp :: "jsval \<Rightarrow> string \<Rightarrow> jsval" where
  "getProp obj k = (case map_of (entries obj) k of None \<Rightarrow> JUndefined | Some v \<Rightarrow> v)"

text \<open>
  Defining a property: an existing key keeps its place and takes the new value, a new
  key goes last. An object literal and a spread \<^verbatim>\<open>{...a, k: v, ...b}\<close> define their
  properties from left to right.
\<close>

primrec setProp :: "string \<Rightarrow> jsval \<Rightarrow> (string \<times> jsval) list \<Rightarrow> (string \<times> jsval) list" where
  "setProp k v [] = [(k, v)]"
| "setProp k v (p # ps) = (if fst p = k then (k, v) # ps else p # setProp k v ps)"

definition assign :: "(string \<times> jsval) list \<Rightarrow> (string \<times> jsval) list \<Rightarrow> (string \<times> jsval) list" where
  "assign obj props = foldl (\<lambda>acc (k, v). setProp k v acc) obj props"

definition fromEntries :: "(string \<times> jsval) list \<Rightarrow> jsval" where
  "fromEntries kvs = JObj (assign [] kvs)"

text \<open>
  The rest of a destructuring \<^verbatim>\<open>const { a, b, ...rest } = obj\<close>: the properties of
  \<open>obj\<close> whose key is not named.
\<close>

definition restProps :: "string list \<Rightarrow> jsval \<Rightarrow> jsval" where
  "restProps named obj = JObj (filter (\<lambda>(k, v). k \<notin> set named) (entries obj))"

section \<open>The schema library\<close>

text \<open>
  A schema is a function from the input value to the parsed value, \<open>None\<close> when
  \<^verbatim>\<open>parse\<close> throws. \<^verbatim>\<open>z.string().datetime()\<close> checks the string against the
  library's datetime pattern, which is a parameter here.
\<close>

type_synonym schema = "jsval \<Rightarrow> jsval option"

fun zString :: schema where
  "zString (JStr s) = Some (JStr s)"
| "zString v = None"

text \<open>\<^verbatim>\<open>z.number()\<close> accepts every number but \<^verbatim>\<open>NaN\<close>.\<close>

fun zNumber :: schema where
  "zNumber (JNum n) = (if n = NaN then None else Some (JNum n))"
| "zNumber v = None"

fun zBoolean :: schema where
  "zBoolean (JBool b) = Some (JBool b)"
| "zBoolean v = None"

definition zUnknown :: schema where
  "zUnknown v = Some v"

fun zDatetime :: "(string \<Rightarrow> bool) \<Rightarrow> schema" where
  "zDatetime isDatetime (JStr s) = (if isDatetime s then Some (JStr s) else None)"
| "zDatetime isDatetime v = None"

definition zNullish :: "schema \<Rightarrow> schema" where
  "zNullish p v = (if isNullish v then Some v else p v)"

fun zUnion :: "schema list \<Rightarrow> schema" where
  "zUnion [] v = None"
| "zUnion (p # ps) v = (case p v of Some y \<Rightarrow> Some y | None \<Rightarrow> zUnion ps v)"

fun zNativeEnum :: "string list \<Rightarrow> schema" where
  "zNativeEnum vals (JStr s) = (if s \<in> set vals then Some (JStr s) else None)"
| "zNativeEnum vals v = None"

text \<open>
  \<^verbatim>\<open>z.record(z.string(), p)\<close>: every value of the object is parsed by \<open>p\<close>; a value
  that parses to \<^verbatim>\<open>undefined\<close> is not set in the result, and neither is the key
  \<^verbatim>\<open>__proto__\<close>.
\<close>

fun zRecordPairs :: "schema \<Rightarrow> (string \<times> jsval) list \<Rightarrow> (string \<times> jsval) list option" where
  "zRecordPairs p [] = Some []"
| "zRecordPairs p ((k, x) # kvs) =
     (case p x of
        None \<Rightarrow> None
      | Some y \<Rightarrow>
          (case zRecordPairs p kvs of
             None \<Rightarrow> None
           | Some out \<Rightarrow>
               Some (if y = JUndefined \<or> k = ''__proto__'' then out else (k, y) # out)))"

fun zRecord :: "schema \<Rightarrow> schema" where
  "zRecord p (JObj kvs) = map_option JObj (zRecordPairs p kvs)"
| "zRecord p v = None"

text \<open>
  \<^verbatim>\<open>z.object(shape)\<close>: the input must be an object; each key of the shape is parsed
  from the input's property of that name and set in the result when the parsed value
  is not \<^verbatim>\<open>undefined\<close> or the key is in the input. Keys of the input that the shape
  does not declare are dropped (the library's default).
\<close>

fun zShape :: "(string \<times> schema) list \<Rightarrow> jsval \<Rightarrow> (string \<times> jsval) list option" where
  "zShape [] inp = Some []"
| "zShape ((k, p) # sh) inp =
     (case p (getProp inp k) of
        None \<Rightarrow> None
      | Some y \<Rightarrow>
          (case zShape sh inp of
             None \<Rightarrow> None
           | Some out \<Rightarrow> Some (if hasKey inp k \<or> y \<noteq> JUndefined then (k, y) # out else out)))"

fun zObject :: "(string \<times> schema) list \<Rightarrow> schema" where
  "zObject shape (JObj kvs) = map_option JObj (zShape shape (JObj kvs))"
| "zObject shape v = None"

section \<open>The schemas of the endpoint\<close>

text \<open>
  Modelled from the spec: the enums \<^verbatim>\<open>ObservationLevel\<close> and
  \<^verbatim>\<open>ObservationType\<close> of the generated store client are not in the sources; the
  spec gives the four levels and the three kinds.
\<close>

definition ObservationLevel :: "string list" where
  "ObservationLevel = [''DEBUG'', ''DEFAULT'', ''WARNING'', ''ERROR'']"

definition ObservationType_GENERATION :: jsval where
  "ObservationType_GENERATION = JStr ''GENERATION''"

definition usageSchema :: schema where
  "usageSchema =
     zObject
       [(''promptTokens'', zNullish zNumber),
        (''completionTokens'', zNullish zNumber),
        (''totalTokens'', zNullish zNumber)]"

definition modelParametersSchema :: schema where
  "modelParametersSchema =
     zNullish (zRecord (zNullish (zUnion [zString, zNumber, zBoolean])))"

definition GenerationsCreateSchema :: "(string \<Rightarrow> bool) \<Rightarrow> schema" where
  "GenerationsCreateSchema isDatetime =
     zObject
       [(''traceId'', zNullish zString),
        (''name'', zNullish zString),
        (''startTime'', zNullish (zDatetime isDatetime)),
        (''endTime'', zNullish (zDatetime isDatetime)),
        (''model'', zNullish zString),
        (''modelParameters'', modelParametersSchema),
        (''prompt'', zNullish zUnknown),
        (''completion'', zNullish zString),
        (''usage'', usageSchema),
        (''metadata'', zNullish zUnknown),
        (''parentObservationId'', zNullish zString),
        (''level'', zNullish (zNativeEnum ObservationLevel)),
        (''statusMessage'', zNullish zString)]"

definition GenerationPatchSchema :: "(string \<Rightarrow> bool) \<Rightarrow> schema" where
  "GenerationPatchSchema isDatetime =
     zObject
       [(''generationId'', zString),
        (''name'', zNullish zString),
        (''endTime'', zNullish (zDatetime isDatetime)),
        (''model'', zNullish zString),
        (''modelParameters'', modelParametersSchema),
        (''prompt'', zNullish zUnknown),
        (''completion'', zNullish zString),
        (''usage'', usageSchema),
        (''metadata'', zNullish zUnknown),
        (''level'', zNullish (zNativeEnum ObservationLevel)),
        (''statusMessage'', zNullish zString)]"

section \<open>Token usage\<close>

text \<open>
  The expression bound to \<^verbatim>\<open>calculatedUsage\<close>, the same text on the create path
  (lines 110 to 119) and on the patch path (lines 177 to 186).
\<close>

definition calculatedUsage :: "jsval \<Rightarrow> jsval" where
  "calculatedUsage usage =
     (if truthy usage then
        JObj (assign (entries usage)
          [(''totalTokens'',
            if \<not> truthy (getProp usage ''totalTokens'') \<and>
               truthy (jsOr (getProp usage ''promptTokens'') (getProp usage ''completionTokens''))
            then jsAdd (nullishCoalesce (getProp usage ''promptTokens'') (JNum (Fin 0)))
                       (nullishCoalesce (getProp usage ''completionTokens'') (JNum (Fin 0)))
            else getProp usage ''totalTokens'')])
      else JUndefined)"

section \<open>Credentials, the store and the calls of a request\<close>

text \<open>
  The scope a credential resolves to is bound to one project.
  \<^verbatim>\<open>verifyAuthHeaderAndReturnScope\<close> (\<^verbatim>\<open>apiAuth.ts\<close>) is not in the sources and is
  opaque to the handler: it is a parameter, from the value of the authorization header
  (a string, or \<^verbatim>\<open>undefined\<close> when the header is missing) to the result the handler
  reads, \<^verbatim>\<open>{validKey: true, scope}\<close> or \<^verbatim>\<open>{validKey: false, error}\<close>. The two other
  parameters belong to libraries: \<open>isDatetime\<close> is the datetime pattern of the schema
  library, \<open>cuid\<close> the supply the store draws new ids from.
\<close>

record scope =
  projectId :: string

datatype authCheck = ValidKey scope | InvalidKey string

record env =
  verifyAuthHeaderAndReturnScope :: "jsval \<Rightarrow> authCheck"
  isDatetime :: "string \<Rightarrow> bool"
  cuid :: "nat \<Rightarrow> string"

text \<open>
  Modelled from the spec: the store behind \<^verbatim>\<open>prisma\<close> (the client and its table
  schema are not in the sources). Section 3 of the spec gives a trace an id, an optional
  name and a project; an observation is the object of its columns, \<^verbatim>\<open>traceId\<close> and
  \<^verbatim>\<open>parentObservationId\<close> among them. New ids are drawn from the supply \<open>cuid\<close>,
  \<open>cuids\<close> counting how many the store has drawn.
\<close>

record trace =
  trace_name :: jsval
  trace_projectId :: string

record store =
  traces :: "string \<rightharpoonup> trace"
  observations :: "string \<rightharpoonup> jsval"
  cuids :: nat

text \<open>
  The calls a request makes on its collaborators, in the order it makes them, are
  written to a log next to the store.
\<close>

datatype call =
    RunCors
  | VerifyAuth jsval
  | ParseCreate jsval
  | ParsePatch jsval
  | CheckApiAccessScope scope "jsval list"
  | ObservationCreate jsval
  | ObservationUpdate jsval jsval

record world =
  db :: store
  calls :: "call list"

definition called :: "call \<Rightarrow> world \<Rightarrow> world" where
  "called c w = w\<lparr>calls := calls w @ [c]\<rparr>"

text \<open>What is thrown inside a \<^verbatim>\<open>try\<close> block: by a schema's parse, or by the store.\<close>

datatype exn = ZodError | StoreFailure

text \<open>
  Modelled from the spec: \<^verbatim>\<open>checkApiAccessScope\<close> (\<^verbatim>\<open>apiScope.ts\<close> is not in the
  sources). Section 4.2: each ref is resolved to its owning project, an observation's
  through its trace; access is granted only if every ref's owning project is the scope's
  project, and a ref that does not resolve fails the check.
\<close>

definition ownerProject :: "store \<Rightarrow> jsval \<Rightarrow> string option" where
  "ownerProject st ref =
     (case getProp ref ''id'' of
        JStr i \<Rightarrow>
          if getProp ref ''type'' = JStr ''trace'' then map_option trace_projectId (traces st i)
          else if getProp ref ''type'' = JStr ''observation'' then
            (case observations st i of
               None \<Rightarrow> None
             | Some row \<Rightarrow>
                 (case getProp row ''traceId'' of
                    JStr t \<Rightarrow> map_option trace_projectId (traces st t)
                  | _ \<Rightarrow> None))
          else None
      | _ \<Rightarrow> None)"

definition checkApiAccessScope :: "store \<Rightarrow> scope \<Rightarrow> jsval list \<Rightarrow> bool" where
  "checkApiAccessScope st sc refs = list_all (\<lambda>ref. ownerProject st ref = Some (projectId sc)) refs"

text \<open>
  Modelled from the spec: \<^verbatim>\<open>prisma.observation.create\<close>. Section 4.4: the trace
  relation either connects to an existing trace id or creates the trace inline with the
  given fields, the parent relation optionally connects to an existing observation; the
  call is atomic and throws when the store rejects it (a relation that does not resolve,
  an id that is taken). The created row holds its id, the two relations and every
  column the data sets; a column whose value is \<^verbatim>\<open>undefined\<close> is not set.
\<close>

definition resolveTrace :: "(nat \<Rightarrow> string) \<Rightarrow> jsval \<Rightarrow> store \<Rightarrow> exn + (string \<times> store)" where
  "resolveTrace newId tr st =
     (if hasKey tr ''connect'' then
        (case getProp (getProp tr ''connect'') ''id'' of
           JStr t \<Rightarrow> (if traces st t = None then Inl StoreFailure else Inr (t, st))
         | _ \<Rightarrow> Inl StoreFailure)
      else if hasKey tr ''create'' then
        (let c = getProp tr ''create''; t = newId (cuids st) in
         case getProp (getProp (getProp c ''project'') ''connect'') ''id'' of
           JStr pid \<Rightarrow>
             (if traces st t = None then
                Inr (t, st\<lparr>traces := (traces st)(t \<mapsto>
                               \<lparr>trace_name = nullishCoalesce (getProp c ''name'') JNull,
                                trace_projectId = pid\<rparr>),
                           cuids := Suc (cuids st)\<rparr>)
              else Inl StoreFailure)
         | _ \<Rightarrow> Inl StoreFailure)
      else Inl StoreFailure)"

definition resolveParent :: "jsval \<Rightarrow> store \<Rightarrow> exn + jsval" where
  "resolveParent par st =
     (if par = JUndefined then Inr JNull
      else
        (case getProp (getProp par ''connect'') ''id'' of
           JStr i \<Rightarrow> (if observations st i = None then Inl StoreFailure else Inr (JStr i))
         | _ \<Rightarrow> Inl StoreFailure))"

definition columns :: "jsval \<Rightarrow> (string \<times> jsval) list" where
  "columns data =
     filter (\<lambda>(k, v). k \<noteq> ''trace'' \<and> k \<noteq> ''parent'' \<and> v \<noteq> JUndefined) (entries data)"

definition prisma_observation_create ::
  "(nat \<Rightarrow> string) \<Rightarrow> jsval \<Rightarrow> store \<Rightarrow> exn + (jsval \<times> store)" where
  "prisma_observation_create newId data st =
     (case resolveTrace newId (getProp data ''trace'') st of
        Inl e \<Rightarrow> Inl e
      | Inr (t, st1) \<Rightarrow>
          (case resolveParent (getProp data ''parent'') st1 of
             Inl e \<Rightarrow> Inl e
           | Inr par \<Rightarrow>
               (let i = newId (cuids st1);
                    row = JObj (assign
                            [(''id'', JStr i), (''traceId'', JStr t), (''parentObservationId'', par)]
                            (columns data))
                in if observations st1 i = None then
                     Inr (row, st1\<lparr>observations := (observations st1)(i \<mapsto> row),
                                   cuids := Suc (cuids st1)\<rparr>)
                   else Inl StoreFailure)))"

text \<open>
  Modelled from the spec: \<^verbatim>\<open>prisma.observation.update\<close>. Section 4.4: a partial
  field patch is applied to exactly one existing record; the call throws when no record
  has the id. A field whose value is \<^verbatim>\<open>undefined\<close> is left as stored.
\<close>

definition prisma_observation_update :: "jsval \<Rightarrow> jsval \<Rightarrow> store \<Rightarrow> exn + (jsval \<times> store)" where
  "prisma_observation_update wh data st =
     (case getProp wh ''id'' of
        JStr i \<Rightarrow>
          (case observations st i of
             None \<Rightarrow> Inl StoreFailure
           | Some row \<Rightarrow>
               (let row' = JObj (assign (entries row)
                                   (filter (\<lambda>(k, v). v \<noteq> JUndefined) (entries data)))
                in Inr (row', st\<lparr>observations := (observations st)(i \<mapsto> row')\<rparr>)))
      | _ \<Rightarrow> Inl StoreFailure)"

section \<open>The handler\<close>

text \<open>The request as the handler reads it: \<^verbatim>\<open>req.method\<close>, \<^verbatim>\<open>req.headers.authorization\<close>, \<^verbatim>\<open>req.body\<close>.\<close>

record request =
  httpMethod :: string
  authorization :: jsval
  body :: jsval

text \<open>
  What the handler sends: the status and what the JSON body carries. \<open>NoResponse\<close> is
  the handler returning without having sent anything.
\<close>

datatype response =
    NoResponse
  | MethodNotAllowed
  | Unauthorized string
  | AccessDenied
  | InvalidRequestData exn
  | Created jsval

fun status :: "response \<Rightarrow> nat option" where
  "status NoResponse = None"
| "status MethodNotAllowed = Some 405"
| "status (Unauthorized msg) = Some 401"
| "status AccessDenied = Some 403"
| "status (InvalidRequestData e) = Some 400"
| "status (Created obs) = Some 201"

subsection \<open>The create path (lines 78 to 160)\<close>

definition createRefs :: "jsval \<Rightarrow> jsval \<Rightarrow> jsval list" where
  "createRefs traceId parentObservationId =
     (if truthy traceId then [JObj [(''type'', JStr ''trace''), (''id'', traceId)]] else []) @
     (if truthy parentObservationId
      then [JObj [(''type'', JStr ''observation''), (''id'', parentObservationId)]] else [])"

definition createData :: "scope \<Rightarrow> jsval \<Rightarrow> jsval" where
  "createData sc p =
     (let traceId = getProp p ''traceId'';
          name = getProp p ''name'';
          startTime = getProp p ''startTime'';
          endTime = getProp p ''endTime'';
          model = getProp p ''model'';
          modelParameters = getProp p ''modelParameters'';
          prompt = getProp p ''prompt'';
          completion = getProp p ''completion'';
          usage = getProp p ''usage'';
          metadata = getProp p ''metadata'';
          parentObservationId = getProp p ''parentObservationId'';
          level = getProp p ''level'';
          statusMessage = getProp p ''statusMessage''
      in JObj (assign
           (entries
              (if truthy traceId
               then JObj [(''trace'', JObj [(''connect'', JObj [(''id'', traceId)])])]
               else JObj [(''trace'', JObj [(''create'', JObj
                            [(''name'', name),
                             (''project'', JObj [(''connect'', JObj [(''id'', JStr (projectId sc))])])])])]))
           [(''type'', ObservationType_GENERATION),
            (''name'', name),
            (''startTime'', if truthy startTime then newDate startTime else JUndefined),
            (''endTime'', if truthy endTime then newDate endTime else JUndefined),
            (''metadata'', nullishCoalesce metadata JUndefined),
            (''model'', nullishCoalesce model JUndefined),
            (''modelParameters'', nullishCoalesce modelParameters JUndefined),
            (''input'', nullishCoalesce prompt JUndefined),
            (''output'', if truthy completion then JObj [(''completion'', completion)] else JUndefined),
            (''usage'', calculatedUsage usage),
            (''level'', nullishCoalesce level JUndefined),
            (''statusMessage'', nullishCoalesce statusMessage JUndefined),
            (''parent'', if truthy parentObservationId
                         then JObj [(''connect'', JObj [(''id'', parentObservationId)])]
                         else JUndefined)]))"

definition postBranch :: "env \<Rightarrow> scope \<Rightarrow> jsval \<Rightarrow> world \<Rightarrow> response \<times> world" where
  "postBranch e sc b w =
     (let w1 = called (ParseCreate b) w in
      case GenerationsCreateSchema (isDatetime e) b of
        None \<Rightarrow> (InvalidRequestData ZodError, w1)
      | Some p \<Rightarrow>
          (let refs = createRefs (getProp p ''traceId'') (getProp p ''parentObservationId'');
               w2 = called (CheckApiAccessScope sc refs) w1
           in if \<not> checkApiAccessScope (db w2) sc refs then (AccessDenied, w2)
              else
                (let data = createData sc p;
                     w3 = called (ObservationCreate data) w2
                 in case prisma_observation_create (cuid e) data (db w3) of
                      Inl err \<Rightarrow> (InvalidRequestData err, w3)
                    | Inr (newObservation, st) \<Rightarrow> (Created newObservation, w3\<lparr>db := st\<rparr>))))"

subsection \<open>The patch path (lines 161 to 213)\<close>

definition patchData :: "jsval \<Rightarrow> jsval" where
  "patchData p =
     (let endTime = getProp p ''endTime'';
          prompt = getProp p ''prompt'';
          completion = getProp p ''completion'';
          usage = getProp p ''usage'';
          fields = restProps [''generationId'', ''endTime'', ''prompt'', ''completion'', ''usage''] p
      in JObj (assign
           [(''endTime'', if truthy endTime then newDate endTime else JUndefined),
            (''input'', nullishCoalesce prompt JUndefined),
            (''output'', if truthy completion then JObj [(''completion'', completion)] else JUndefined),
            (''usage'', calculatedUsage usage)]
           (entries (fromEntries
              (filter (\<lambda>(k, v). v \<noteq> JNull \<and> v \<noteq> JUndefined) (entries fields))))))"

definition patchBranch :: "env \<Rightarrow> scope \<Rightarrow> jsval \<Rightarrow> world \<Rightarrow> response \<times> world" where
  "patchBranch e sc b w =
     (let w1 = called (ParsePatch b) w in
      case GenerationPatchSchema (isDatetime e) b of
        None \<Rightarrow> (InvalidRequestData ZodError, w1)
      | Some p \<Rightarrow>
          (let generationId = getProp p ''generationId'';
               refs = [JObj [(''type'', JStr ''observation''), (''id'', generationId)]];
               w2 = called (CheckApiAccessScope sc refs) w1
           in if \<not> checkApiAccessScope (db w2) sc refs then (AccessDenied, w2)
              else
                (let wh = JObj [(''id'', generationId)];
                     data = patchData p;
                     w3 = called (ObservationUpdate wh data) w2
                 in case prisma_observation_update wh data (db w3) of
                      Inl err \<Rightarrow> (InvalidRequestData err, w3)
                    | Inr (newObservation, st) \<Rightarrow> (Created newObservation, w3\<lparr>db := st\<rparr>))))"

subsection \<open>The handler (lines 57 to 214)\<close>

text \<open>
  The CORS middleware (\<^verbatim>\<open>cors.ts\<close>, not in the sources) runs first; the model records
  the call and goes on. The method test of line 63 comes before the credential is
  looked at, and the two branches test the method again.
\<close>

definition handler :: "env \<Rightarrow> request \<Rightarrow> world \<Rightarrow> response \<times> world" where
  "handler e req w =
     (let w1 = called RunCors w in
      if httpMethod req \<noteq> ''POST'' then (MethodNotAllowed, w1)
      else
        (let w2 = called (VerifyAuth (authorization req)) w1 in
         case verifyAuthHeaderAndReturnScope e (authorization req) of
           InvalidKey msg \<Rightarrow> (Unauthorized msg, w2)
         | ValidKey sc \<Rightarrow>
             if httpMethod req = ''POST'' then postBranch e sc (body req) w2
             else if httpMethod req = ''PATCH'' then patchBranch e sc (body req) w2
             else (NoResponse, w2)))"

section \<open>Notions the statements use\<close>

text \<open>The number a token count stands for in a sum: \<^verbatim>\<open>x ?? 0\<close> of a number, null or nothing.\<close>

fun tokenCount :: "jsval \<Rightarrow> jsnum" where
  "tokenCount (JNum n) = n"
| "tokenCount v = Fin 0"

text \<open>The object without one of its keys: the payload that omits the key.\<close>

fun deleteProp :: "string \<Rightarrow> jsval \<Rightarrow> jsval" where
  "deleteProp k (JObj kvs) = JObj (filter (\<lambda>(k', v). k' \<noteq> k) kvs)"
| "deleteProp k v = v"

text \<open>The calls of a request that reach the store, and the calls that parse a payload.\<close>

fun isStoreCall :: "call \<Rightarrow> bool" where
  "isStoreCall (ObservationCreate d) = True"
| "isStoreCall (ObservationUpdate wh d) = True"
| "isStoreCall c = False"

fun isParseCall :: "call \<Rightarrow> bool" where
  "isParseCall (ParseCreate b) = True"
| "isParseCall (ParsePatch b) = True"
| "isParseCall c = False"

section \<open>A sample deployment\<close>

text \<open>
  One credential, bound to project \<open>p1\<close>; a store with a trace and a generation of
  \<open>p1\<close> and a trace and a generation of another project \<open>p2\<close>. The datetime
  check stands in for the library's pattern, without fractional seconds.
\<close>

definition sampleDatetime :: "string \<Rightarrow> bool" where
  "sampleDatetime s =
     list_all2 (\<lambda>c d. if c = CHR ''d'' then d \<in> set ''0123456789'' else d = c)
       ''dddd-dd-ddTdd:dd:ddZ'' s"

definition env0 :: env where
  "env0 =
     \<lparr>verifyAuthHeaderAndReturnScope =
        (\<lambda>h. if h = JStr ''Basic k1'' then ValidKey \<lparr>projectId = ''p1''\<rparr>
             else InvalidKey ''Invalid credentials''),
      isDatetime = sampleDatetime,
      cuid = (\<lambda>n. replicate (Suc n) CHR ''c'')\<rparr>"

definition row1 :: jsval where
  "row1 =
     JObj [(''id'', JStr ''g1''), (''traceId'', JStr ''t1''),
           (''parentObservationId'', JNull), (''type'', JStr ''GENERATION''),
           (''name'', JStr ''first''), (''startTime'', JDate ''2023-07-01T10:00:00Z''),
           (''output'', JObj [(''completion'', JStr ''hello'')])]"

definition row2 :: jsval where
  "row2 =
     JObj [(''id'', JStr ''g2''), (''traceId'', JStr ''t2''),
           (''parentObservationId'', JNull), (''type'', JStr ''GENERATION'')]"

definition store0 :: store where
  "store0 =
     \<lparr>traces =
        [''t1'' \<mapsto> \<lparr>trace_name = JStr ''chat'', trace_projectId = ''p1''\<rparr>,
         ''t2'' \<mapsto> \<lparr>trace_name = JNull, trace_projectId = ''p2''\<rparr>],
      observations = [''g1'' \<mapsto> row1, ''g2'' \<mapsto> row2],
      cuids = 0\<rparr>"

definition world0 :: world where
  "world0 = \<lparr>db = store0, calls = []\<rparr>"

text \<open>A patch of generation \<open>g1\<close> with the credential of its project.\<close>

definition patchRequest1 :: request where
  "patchRequest1 =
     \<lparr>httpMethod = ''PATCH'', authorization = JStr ''Basic k1'',
      body = JObj [(''generationId'', JStr ''g1''), (''name'', JStr ''renamed''),
                   (''usage'', JObj [(''promptTokens'', JNum (num 10)), (''completionTokens'', JNum (num 5))])]\<rparr>"

text \<open>Requests without a credential: a create, and a patch of \<open>g1\<close>.\<close>

definition postNoCredential :: request where
  "postNoCredential =
     \<lparr>httpMethod = ''POST'', authorization = JUndefined,
      body = JObj [(''name'', JStr ''chat''), (''usage'', JObj [])]\<rparr>"

definition patchNoCredential :: request where
  "patchNoCredential =
     \<lparr>httpMethod = ''PATCH'', authorization = JUndefined,
      body = JObj [(''generationId'', JStr ''g1''), (''usage'', JObj [])]\<rparr>"

text \<open>
  Requests with the credential of \<open>p1\<close> that name a resource of the other project:
  a create in the trace \<open>t2\<close>, and a patch of the generation \<open>g2\<close>.
\<close>

definition postForeignTrace :: request where
  "postForeignTrace =
     \<lparr>httpMethod = ''POST'', authorization = JStr ''Basic k1'',
      body = JObj [(''traceId'', JStr ''t2''), (''usage'', JObj [])]\<rparr>"

definition patchForeign :: request where
  "patchForeign =
     \<lparr>httpMethod = ''PATCH'', authorization = JStr ''Basic k1'',
      body = JObj [(''generationId'', JStr ''g2''), (''name'', JStr ''taken''), (''usage'', JObj [])]\<rparr>"

text \<open>Create payloads: one with an empty completion, one with a prompt and a completion.\<close>

definition bodyEmptyCompletion :: jsval where
  "bodyEmptyCompletion = JObj [(''completion'', JStr []), (''usage'', JObj [])]"

definition bodyHello :: jsval where
  "bodyHello = JObj [(''prompt'', JStr ''hi''), (''completion'', JStr ''hello''), (''usage'', JObj [])]"

text \<open>Creates with the credential of \<open>p1\<close>: one without a trace id, one with an empty one.\<close>

definition postNoTrace :: request where
  "postNoTrace =
     \<lparr>httpMethod = ''POST'', authorization = JStr ''Basic k1'',
      body = JObj [(''name'', JStr ''chat''), (''usage'', JObj [])]\<rparr>"

definition postEmptyTrace :: request where
  "postEmptyTrace =
     \<lparr>httpMethod = ''POST'', authorization = JStr ''Basic k1'',
      body = JObj [(''traceId'', JStr []), (''name'', JStr ''chat''), (''usage'', JObj [])]\<rparr>"

text \<open>
  Patches of generation \<open>g1\<close> with the credential of its project: one with an end
  time, an empty prompt and a completion, and one with a new name. Last, a patch payload
  that supplies the four keys the patch schema does not declare.
\<close>

definition patchFinish :: jsval where
  "patchFinish =
     JObj [(''generationId'', JStr ''g1''), (''endTime'', JStr ''2023-07-01T10:00:05Z''),
           (''prompt'', JStr []), (''completion'', JStr ''bye''), (''usage'', JObj [])]"

definition patchFinishRequest :: request where
  "patchFinishRequest =
     \<lparr>httpMethod = ''PATCH'', authorization = JStr ''Basic k1'', body = patchFinish\<rparr>"

definition patchRename :: request where
  "patchRename =
     \<lparr>httpMethod = ''PATCH'', authorization = JStr ''Basic k1'',
      body = JObj [(''generationId'', JStr ''g1''), (''name'', JStr ''foo''), (''usage'', JObj [])]\<rparr>"

definition patchMove :: jsval where
  "patchMove =
     JObj [(''generationId'', JStr ''g1''), (''traceId'', JStr ''t2''),
           (''startTime'', JStr ''2024-01-01T00:00:00Z''), (''parentObservationId'', JStr ''g2''),
           (''type'', JStr ''SPAN''), (''usage'', JObj [])]"

section \<open>Facts about numbers\<close>

text \<open>A small integer is a number, truthy unless it is zero; and 10 + 5 is 15.\<close>

lemma num_not_NaN: "num i \<noteq> NaN"
  by (simp add: num_def)

lemma num_not_zero: "i \<noteq> 0 \<Longrightarrow> num i \<noteq> Fin 0"
  by (simp add: num_def)

lemma numAdd_10_5: "numAdd (num 10) (num 5) = num 15"
  by code_simp

text \<open>
  The sum is rounded: \<^verbatim>\<open>2^53 + 1\<close> is \<^verbatim>\<open>2^53\<close>, the tie going to the even
  significand. Fractions add exactly where the result is a double: \<^verbatim>\<open>1.5 + 1.5\<close> is 3.
\<close>

lemma numAdd_rounds: "numAdd (num (2 ^ 53)) (num 1) = num (2 ^ 53)"
  by code_simp

lemma numAdd_fractions: "numAdd (Fin (3 * 2 ^ 1073)) (Fin (3 * 2 ^ 1073)) = num 3"
  by code_simp

section \<open>Facts about objects\<close>

text \<open>Reading, defining and filtering properties.\<close>

lemma getProp_Cons: "getProp (JObj ((k', v) # kvs)) k = (if k = k' then v else getProp (JObj kvs) k)"
  by (simp add: getProp_def)

lemma getProp_Nil: "getProp (JObj []) k = JUndefined"
  by (simp add: getProp_def)

lemma hasKey_JObj: "hasKey (JObj kvs) k = (k \<in> fst ` set kvs)"
  by (simp add: hasKey_def)

lemma getProp_absent: "k \<notin> fst ` set kvs \<Longrightarrow> getProp (JObj kvs) k = JUndefined"
  by (simp add: getProp_def map_of_eq_None_iff[THEN iffD2])

lemma getProp_append:
  "getProp (JObj (xs @ ys)) k = (if k \<in> fst ` set xs then getProp (JObj xs) k else getProp (JObj ys) k)"
proof (cases "map_of xs k")
  case None
  then have "k \<notin> fst ` set xs" by (simp add: map_of_eq_None_iff)
  with None show ?thesis by (simp add: getProp_def map_add_def)
next
  case (Some v)
  then have "k \<in> fst ` set xs" by (metis map_of_eq_None_iff option.distinct(1))
  with Some show ?thesis by (simp add: getProp_def map_add_def)
qed

lemma getProp_setProp:
  "getProp (JObj (setProp k v ps)) k' = (if k' = k then v else getProp (JObj ps) k')"
  by (induction ps) (auto simp: getProp_def)

lemma setProp_new: "k \<notin> fst ` set ps \<Longrightarrow> setProp k v ps = ps @ [(k, v)]"
  by (induction ps) auto

lemma assign_Nil: "assign obj [] = obj"
  by (simp add: assign_def)

lemma assign_Cons: "assign obj ((k, v) # props) = assign (setProp k v obj) props"
  by (simp add: assign_def)

lemma assign_distinct: "distinct (map fst (obj @ props)) \<Longrightarrow> assign obj props = obj @ props"
proof (induction props arbitrary: obj)
  case Nil
  then show ?case by (simp add: assign_Nil)
next
  case (Cons a props)
  obtain k v where a: "a = (k, v)" by (cases a)
  from Cons.prems a have new: "k \<notin> fst ` set obj" by auto
  from Cons.prems a have "distinct (map fst ((obj @ [(k, v)]) @ props))" by auto
  then have "assign (obj @ [(k, v)]) props = (obj @ [(k, v)]) @ props" by (rule Cons.IH)
  then show ?case using a new by (simp add: assign_Cons setProp_new)
qed

lemma getProp_assign_other:
  "k \<notin> fst ` set props \<Longrightarrow> getProp (JObj (assign obj props)) k = getProp (JObj obj) k"
proof (induction props arbitrary: obj)
  case Nil
  then show ?case by (simp add: assign_Nil)
next
  case (Cons a props)
  obtain k' v' where a: "a = (k', v')" by (cases a)
  with Cons.prems have "k \<noteq> k'" "k \<notin> fst ` set props" by auto
  then show ?case using Cons.IH[of "setProp k' v' obj"] a by (simp add: assign_Cons getProp_setProp)
qed

lemma getProp_assign_distinct:
  "distinct (map fst props) \<Longrightarrow>
   getProp (JObj (assign obj props)) k =
     (if k \<in> fst ` set props then getProp (JObj props) k else getProp (JObj obj) k)"
proof (induction props arbitrary: obj)
  case Nil
  then show ?case by (simp add: assign_Nil)
next
  case (Cons a props)
  obtain k' v' where a: "a = (k', v')" by (cases a)
  from Cons.prems a have d: "distinct (map fst props)" and new: "k' \<notin> fst ` set props" by auto
  have "getProp (JObj (assign (setProp k' v' obj) props)) k =
          (if k \<in> fst ` set props then getProp (JObj props) k else getProp (JObj (setProp k' v' obj)) k)"
    by (rule Cons.IH[OF d])
  then show ?case using new a by (auto simp: assign_Cons getProp_setProp getProp_Cons)
qed

lemma filter_lookup_None: "map_of kvs key = None \<Longrightarrow> map_of (filter Q kvs) key = None"
  by (induction kvs) (auto split: if_splits)

lemma filter_lookup_Some:
  "map_of kvs key = Some w \<Longrightarrow> distinct (map fst kvs) \<Longrightarrow>
   map_of (filter Q kvs) key = (if Q (key, w) then Some w else None)"
proof (induction kvs)
  case Nil
  then show ?case by simp
next
  case (Cons kv kvs)
  show ?case
  proof (cases "fst kv = key")
    case True
    with Cons.prems have kv: "kv = (key, w)" by (cases kv) auto
    from Cons.prems True have "key \<notin> fst ` set kvs" by auto
    then have "map_of kvs key = None" by (simp add: map_of_eq_None_iff)
    then have "map_of (filter Q kvs) key = None" by (rule filter_lookup_None)
    with kv show ?thesis by simp
  next
    case False
    with Cons.prems have "map_of kvs key = Some w" "distinct (map fst kvs)" by (cases kv; auto)+
    then have "map_of (filter Q kvs) key = (if Q (key, w) then Some w else None)" by (rule Cons.IH)
    with False show ?thesis by (cases kv) auto
  qed
qed

lemma getProp_filter:
  assumes d: "distinct (map fst xs)"
  shows "getProp (JObj (filter P xs)) k =
     (if k \<in> fst ` set xs \<and> P (k, getProp (JObj xs) k) then getProp (JObj xs) k else JUndefined)"
proof (cases "map_of xs k")
  case None
  then have "k \<notin> fst ` set xs" by (simp add: map_of_eq_None_iff)
  with None show ?thesis by (simp add: getProp_def filter_lookup_None)
next
  case (Some v)
  then have "k \<in> fst ` set xs" by (metis map_of_eq_None_iff option.distinct(1))
  with Some show ?thesis by (simp add: getProp_def filter_lookup_Some[OF Some d])
qed

lemma hasKey_filter:
  assumes d: "distinct (map fst xs)"
  shows "hasKey (JObj (filter P xs)) k = (k \<in> fst ` set xs \<and> P (k, getProp (JObj xs) k))"
proof -
  have "hasKey (JObj (filter P xs)) k = (map_of (filter P xs) k \<noteq> None)"
    by (simp add: hasKey_def map_of_eq_None_iff)
  also have "\<dots> = (k \<in> fst ` set xs \<and> P (k, getProp (JObj xs) k))"
  proof (cases "map_of xs k")
    case None
    then have "k \<notin> fst ` set xs" by (simp add: map_of_eq_None_iff)
    with None show ?thesis by (simp add: filter_lookup_None)
  next
    case (Some v)
    then have "k \<in> fst ` set xs" by (metis map_of_eq_None_iff option.distinct(1))
    with Some show ?thesis by (simp add: filter_lookup_Some[OF Some d] getProp_def)
  qed
  finally show ?thesis .
qed

lemma keys_filter: "k \<notin> fst ` set xs \<Longrightarrow> k \<notin> fst ` set (filter P xs)"
  by auto

lemma keys_filter2:
  assumes d: "distinct (map fst xs)"
  shows "(k \<in> fst ` set (filter (\<lambda>(k, v). P v) (filter (\<lambda>(k, v). Q k) xs))) =
         (k \<in> fst ` set xs \<and> Q k \<and> P (getProp (JObj xs) k))"
proof (cases "map_of xs k")
  case None
  then have "k \<notin> fst ` set xs" by (simp add: map_of_eq_None_iff)
  then show ?thesis by auto
next
  case (Some v)
  then have mem: "(k, v) \<in> set xs" by (rule map_of_SomeD)
  have g: "getProp (JObj xs) k = v" using Some by (simp add: getProp_def)
  have uniq: "(k, v') \<in> set xs \<Longrightarrow> v' = v" for v'
    using d Some by (metis map_of_is_SomeI option.inject)
  show ?thesis
  proof
    assume "k \<in> fst ` set (filter (\<lambda>(k, v). P v) (filter (\<lambda>(k, v). Q k) xs))"
    then obtain v' where "(k, v') \<in> set xs" "Q k" "P v'" by auto
    with uniq[of v'] mem g show "k \<in> fst ` set xs \<and> Q k \<and> P (getProp (JObj xs) k)" by force
  next
    assume "k \<in> fst ` set xs \<and> Q k \<and> P (getProp (JObj xs) k)"
    with mem g have "(k, v) \<in> set (filter (\<lambda>(k, v). P v) (filter (\<lambda>(k, v). Q k) xs))" by simp
    then show "k \<in> fst ` set (filter (\<lambda>(k, v). P v) (filter (\<lambda>(k, v). Q k) xs))" by force
  qed
qed

lemma getProp_filter2:
  assumes d: "distinct (map fst xs)"
  shows "getProp (JObj (filter (\<lambda>(k, v). P v) (filter (\<lambda>(k, v). Q k) xs))) k =
         (if k \<in> fst ` set xs \<and> Q k \<and> P (getProp (JObj xs) k) then getProp (JObj xs) k else JUndefined)"
proof (cases "k \<in> fst ` set (filter (\<lambda>(k, v). P v) (filter (\<lambda>(k, v). Q k) xs))")
  case False
  then have und: "getProp (JObj (filter (\<lambda>(k, v). P v) (filter (\<lambda>(k, v). Q k) xs))) k = JUndefined"
    by (rule getProp_absent)
  from False have c: "\<not> (k \<in> fst ` set xs \<and> Q k \<and> P (getProp (JObj xs) k))"
    unfolding keys_filter2[OF d] .
  show ?thesis by (simp only: und c if_False)
next
  case True
  then obtain v where v: "(k, v) \<in> set xs" "Q k" "P v" by auto
  have d2: "distinct (map fst (filter (\<lambda>(k, v). P v) (filter (\<lambda>(k, v). Q k) xs)))"
    using d by (simp add: distinct_map_filter)
  from v have "(k, v) \<in> set (filter (\<lambda>(k, v). P v) (filter (\<lambda>(k, v). Q k) xs))" by simp
  then have 1: "map_of (filter (\<lambda>(k, v). P v) (filter (\<lambda>(k, v). Q k) xs)) k = Some v"
    using d2 by (rule map_of_is_SomeI[rotated])
  have 2: "map_of xs k = Some v" using d v(1) by (rule map_of_is_SomeI)
  from True have "k \<in> fst ` set xs \<and> Q k \<and> P (getProp (JObj xs) k)" unfolding keys_filter2[OF d] .
  then show ?thesis using 1 2 by (simp add: getProp_def)
qed

lemma getProp_deleteProp:
  "getProp (deleteProp k (JObj kvs)) k' = (if k' = k then JUndefined else getProp (JObj kvs) k')"
proof (induction kvs)
  case Nil
  then show ?case by (simp add: getProp_def)
next
  case (Cons a kvs)
  obtain k0 v0 where a: "a = (k0, v0)" by (cases a)
  with Cons show ?case by (auto simp: getProp_Cons)
qed

lemma hasKey_deleteProp:
  "hasKey (deleteProp k (JObj kvs)) k' = (k' \<noteq> k \<and> hasKey (JObj kvs) k')"
  by (auto simp: hasKey_def rev_image_eqI)

section \<open>Facts about schemas\<close>

text \<open>What a parsed object holds: only keys of the shape, each once, each with the value its schema returned.\<close>

lemma zShape_keys: "zShape sh inp = Some out \<Longrightarrow> (k, v) \<in> set out \<Longrightarrow> k \<in> fst ` set sh"
proof (induction sh arbitrary: out)
  case Nil
  then show ?case by simp
next
  case (Cons a sh)
  obtain k' p' where a: "a = (k', p')" by (cases a)
  from Cons.prems(1) a obtain y out' where
    out': "zShape sh inp = Some out'"
    and out: "out = (if hasKey inp k' \<or> y \<noteq> JUndefined then (k', y) # out' else out')"
    by (auto split: option.splits)
  from out Cons.prems(2) have "k = k' \<or> (k, v) \<in> set out'" by (auto split: if_splits)
  then show ?case using Cons.IH[OF out'] a by auto
qed

lemma zShape_keys_subset: "zShape sh inp = Some out \<Longrightarrow> fst ` set out \<subseteq> fst ` set sh"
  by (auto dest: zShape_keys)

lemma zShape_distinct:
  "zShape sh inp = Some out \<Longrightarrow> distinct (map fst sh) \<Longrightarrow> distinct (map fst out)"
proof (induction sh arbitrary: out)
  case Nil
  then show ?case by simp
next
  case (Cons a sh)
  obtain k' p' where a: "a = (k', p')" by (cases a)
  from Cons.prems(1) a obtain y out' where
    out': "zShape sh inp = Some out'"
    and out: "out = (if hasKey inp k' \<or> y \<noteq> JUndefined then (k', y) # out' else out')"
    by (auto split: option.splits)
  from Cons.prems(2) a have d: "distinct (map fst sh)" and new: "k' \<notin> fst ` set sh" by auto
  have "distinct (map fst out')" using Cons.IH[OF out' d] .
  moreover have "k' \<notin> fst ` set out'" using new zShape_keys_subset[OF out'] by auto
  ultimately show ?case using out by auto
qed

lemma zShape_absent:
  "zShape sh inp = Some out \<Longrightarrow> k \<notin> fst ` set sh \<Longrightarrow> getProp (JObj out) k = JUndefined"
  using zShape_keys_subset[of sh inp out] by (auto intro: getProp_absent)

lemma zShape_getProp:
  "zShape sh inp = Some out \<Longrightarrow> distinct (map fst sh) \<Longrightarrow> (k, p) \<in> set sh \<Longrightarrow>
   p (getProp inp k) = Some (getProp (JObj out) k)"
proof (induction sh arbitrary: out)
  case Nil
  then show ?case by simp
next
  case (Cons a sh)
  obtain k' p' where a: "a = (k', p')" by (cases a)
  from Cons.prems(1) a obtain y out' where
    y: "p' (getProp inp k') = Some y" and out': "zShape sh inp = Some out'"
    and out: "out = (if hasKey inp k' \<or> y \<noteq> JUndefined then (k', y) # out' else out')"
    by (auto split: option.splits)
  show ?case
  proof (cases "k = k'")
    case True
    with Cons.prems a have pp: "p = p'" by (auto simp: rev_image_eqI)
    from Cons.prems(2) a have "k' \<notin> fst ` set sh" by simp
    then have "getProp (JObj out') k' = JUndefined" using zShape_absent[OF out'] by simp
    with True pp y out show ?thesis by (auto simp: getProp_Cons)
  next
    case False
    with Cons.prems a have "(k, p) \<in> set sh" "distinct (map fst sh)" by auto
    then have "p (getProp inp k) = Some (getProp (JObj out') k)" using Cons.IH[OF out'] by simp
    with False out show ?thesis by (auto simp: getProp_Cons)
  qed
qed

lemma zShape_cong:
  "(\<And>k s. (k, s) \<in> set sh \<Longrightarrow> getProp b k = getProp b' k \<and> hasKey b k = hasKey b' k) \<Longrightarrow>
   zShape sh b = zShape sh b'"
proof (induction sh)
  case Nil
  then show ?case by simp
next
  case (Cons a sh)
  obtain k s where a: "a = (k, s)" by (cases a)
  have ih: "zShape sh b = zShape sh b'" using Cons.prems by (intro Cons.IH) auto
  have g: "getProp b k = getProp b' k" and h: "hasKey b k = hasKey b' k"
    using Cons.prems[of k s] a by auto
  show ?case unfolding a by (simp add: ih g h cong: option.case_cong)
qed

lemma zShape_Cons_present:
  "s (getProp b k) = Some y \<Longrightarrow> hasKey b k \<Longrightarrow>
   zShape ((k, s) # sh) b = map_option (\<lambda>out. (k, y) # out) (zShape sh b)"
  by (cases "zShape sh b") simp_all

lemma zShape_Cons_absent:
  "s (getProp b k) = Some JUndefined \<Longrightarrow> \<not> hasKey b k \<Longrightarrow>
   zShape ((k, s) # sh) b = zShape sh b"
  by (cases "zShape sh b") simp_all

lemma zObject_Some:
  "zObject sh v = Some p \<Longrightarrow> \<exists>out. p = JObj out \<and> zShape sh v = Some out"
  by (cases v) auto

text \<open>The field schemas return their input, and say what it is.\<close>

lemma zNullish_zNumber:
  "zNullish zNumber v = Some y \<Longrightarrow> y = v \<and> (v = JNull \<or> v = JUndefined \<or> (\<exists>n. v = JNum n))"
  by (cases v) (auto simp: zNullish_def isNullish_def split: if_splits)

lemma zNullish_zString:
  "zNullish zString v = Some y \<Longrightarrow> y = v \<and> (v = JNull \<or> v = JUndefined \<or> (\<exists>s. v = JStr s))"
  by (cases v) (auto simp: zNullish_def isNullish_def split: if_splits)

lemma zNullish_zUnknown: "zNullish zUnknown v = Some y \<Longrightarrow> y = v"
  by (auto simp: zNullish_def zUnknown_def split: if_splits)

lemma zNullish_zDatetime:
  "zNullish (zDatetime dt) v = Some y \<Longrightarrow> y = v \<and> (v = JNull \<or> v = JUndefined \<or> (\<exists>s. v = JStr s \<and> dt s))"
  by (cases v) (auto simp: zNullish_def isNullish_def split: if_splits)

lemma zNullish_zNativeEnum:
  "zNullish (zNativeEnum vals) v = Some y \<Longrightarrow>
   y = v \<and> (v = JNull \<or> v = JUndefined \<or> (\<exists>s. v = JStr s \<and> s \<in> set vals))"
  by (cases v) (auto simp: zNullish_def isNullish_def split: if_splits)

lemma zRecord_object: "zRecord s v = Some y \<Longrightarrow> \<exists>kvs. y = JObj kvs"
  by (cases v) auto

lemma modelParametersSchema_nullish:
  "modelParametersSchema v = Some y \<Longrightarrow> isNullish y = isNullish v"
  by (auto simp: modelParametersSchema_def zNullish_def isNullish_def split: if_splits dest: zRecord_object)

lemma zNullish_zString_truthy:
  "zNullish zString v = Some y \<Longrightarrow>
   (if truthy v then JObj [(''completion'', v)] else JUndefined) =
   (case v of JStr s \<Rightarrow> if s = [] then JUndefined else JObj [(''completion'', JStr s)] | _ \<Rightarrow> JUndefined)"
  by (cases v) (auto simp: zNullish_def isNullish_def split: if_splits)

lemma zNullish_zDatetime_truthy:
  "zNullish (zDatetime dt) v = Some y \<Longrightarrow>
   (if truthy v then newDate v else JUndefined) =
   (case v of JStr s \<Rightarrow> if s = [] then JUndefined else JDate s | _ \<Rightarrow> JUndefined)"
  by (cases v) (auto simp: zNullish_def isNullish_def split: if_splits)

text \<open>The usage schema and the derived usage.\<close>

lemma usageSchema_props:
  assumes "usageSchema u = Some p"
  assumes "k \<in> {''promptTokens'', ''completionTokens'', ''totalTokens''}"
  shows "getProp p k = getProp u k \<and>
         (getProp u k = JNull \<or> getProp u k = JUndefined \<or> (\<exists>n. getProp u k = JNum n))"
proof -
  let ?sh = "[(''promptTokens'', zNullish zNumber), (''completionTokens'', zNullish zNumber),
              (''totalTokens'', zNullish zNumber)]"
  from assms(1) obtain out where p: "p = JObj out" and sh: "zShape ?sh u = Some out"
    unfolding usageSchema_def by (blast dest: zObject_Some)
  have d: "distinct (map fst ?sh)" by simp
  from assms(2) have "(k, zNullish zNumber) \<in> set ?sh" by auto
  from zShape_getProp[OF sh d this] have "zNullish zNumber (getProp u k) = Some (getProp p k)"
    by (simp add: p)
  from zNullish_zNumber[OF this] show ?thesis by simp
qed

lemma usageSchema_object: "usageSchema u = Some y \<Longrightarrow> \<exists>out. y = JObj out"
  unfolding usageSchema_def by (blast dest: zObject_Some)

lemma calculatedUsage_obj:
  "calculatedUsage (JObj out) =
     JObj (setProp ''totalTokens''
        (if \<not> truthy (getProp (JObj out) ''totalTokens'') \<and>
            truthy (jsOr (getProp (JObj out) ''promptTokens'') (getProp (JObj out) ''completionTokens''))
         then jsAdd (nullishCoalesce (getProp (JObj out) ''promptTokens'') (JNum (Fin 0)))
                    (nullishCoalesce (getProp (JObj out) ''completionTokens'') (JNum (Fin 0)))
         else getProp (JObj out) ''totalTokens'') out)"
  by (simp add: calculatedUsage_def assign_Cons assign_Nil)

lemma calculatedUsage_defined: "calculatedUsage (JObj out) \<noteq> JUndefined"
  by (simp add: calculatedUsage_def)

lemma add_or_zero:
  assumes "a = JNull \<or> a = JUndefined \<or> (\<exists>n. a = JNum n)"
    and "b = JNull \<or> b = JUndefined \<or> (\<exists>n. b = JNum n)"
  shows "jsAdd (nullishCoalesce a (JNum (Fin 0))) (nullishCoalesce b (JNum (Fin 0))) = JNum (numAdd (tokenCount a) (tokenCount b))"
  using assms by (auto simp: nullishCoalesce_def isNullish_def)

lemma truthy_jsOr: "truthy (jsOr a b) = (truthy a \<or> truthy b)"
  by (simp add: jsOr_def)

section \<open>Facts about the create path\<close>

text \<open>The payload the create schema returns, and the data of the create written out.\<close>

lemma create_parse_shape:
  assumes "GenerationsCreateSchema dt b = Some p"
  shows "\<exists>out. p = JObj out \<and>
     zShape
       [(''traceId'', zNullish zString),
        (''name'', zNullish zString),
        (''startTime'', zNullish (zDatetime dt)),
        (''endTime'', zNullish (zDatetime dt)),
        (''model'', zNullish zString),
        (''modelParameters'', modelParametersSchema),
        (''prompt'', zNullish zUnknown),
        (''completion'', zNullish zString),
        (''usage'', usageSchema),
        (''metadata'', zNullish zUnknown),
        (''parentObservationId'', zNullish zString),
        (''level'', zNullish (zNativeEnum ObservationLevel)),
        (''statusMessage'', zNullish zString)] b = Some out"
  using assms unfolding GenerationsCreateSchema_def by (rule zObject_Some)

lemma create_parse_field:
  assumes "GenerationsCreateSchema dt b = Some p"
    and "(k, s) \<in> set
       [(''traceId'', zNullish zString),
        (''name'', zNullish zString),
        (''startTime'', zNullish (zDatetime dt)),
        (''endTime'', zNullish (zDatetime dt)),
        (''model'', zNullish zString),
        (''modelParameters'', modelParametersSchema),
        (''prompt'', zNullish zUnknown),
        (''completion'', zNullish zString),
        (''usage'', usageSchema),
        (''metadata'', zNullish zUnknown),
        (''parentObservationId'', zNullish zString),
        (''level'', zNullish (zNativeEnum ObservationLevel)),
        (''statusMessage'', zNullish zString)]"
  shows "s (getProp b k) = Some (getProp p k)"
proof -
  from create_parse_shape[OF assms(1)] obtain out where p: "p = JObj out" and
    sh: "zShape
       [(''traceId'', zNullish zString),
        (''name'', zNullish zString),
        (''startTime'', zNullish (zDatetime dt)),
        (''endTime'', zNullish (zDatetime dt)),
        (''model'', zNullish zString),
        (''modelParameters'', modelParametersSchema),
        (''prompt'', zNullish zUnknown),
        (''completion'', zNullish zString),
        (''usage'', usageSchema),
        (''metadata'', zNullish zUnknown),
        (''parentObservationId'', zNullish zString),
        (''level'', zNullish (zNativeEnum ObservationLevel)),
        (''statusMessage'', zNullish zString)] b = Some out" by blast
  show ?thesis unfolding p by (rule zShape_getProp[OF sh _ assms(2)]) simp
qed

lemma create_parse_strings:
  assumes "GenerationsCreateSchema dt b = Some p"
    and "k \<in> {''traceId'', ''name'', ''model'', ''completion'', ''parentObservationId'', ''statusMessage''}"
  shows "getProp p k = getProp b k \<and>
         (getProp b k = JNull \<or> getProp b k = JUndefined \<or> (\<exists>s. getProp b k = JStr s))"
proof -
  from assms(2) have "zNullish zString (getProp b k) = Some (getProp p k)"
    by (intro create_parse_field[OF assms(1)]) auto
  from zNullish_zString[OF this] show ?thesis by simp
qed

lemma create_parse_unknowns:
  assumes "GenerationsCreateSchema dt b = Some p"
    and "k \<in> {''prompt'', ''metadata''}"
  shows "getProp p k = getProp b k"
proof -
  from assms(2) have "zNullish zUnknown (getProp b k) = Some (getProp p k)"
    by (intro create_parse_field[OF assms(1)]) auto
  from zNullish_zUnknown[OF this] show ?thesis by simp
qed

lemma create_parse_empty_traceId:
  assumes parse: "GenerationsCreateSchema dt b = Some p"
    and empty: "getProp b ''traceId'' = JStr []"
  shows "\<exists>out. p = JObj ((''traceId'', JStr []) # out) \<and> ''traceId'' \<notin> fst ` set out \<and>
           GenerationsCreateSchema dt (deleteProp ''traceId'' b) = Some (JObj out)"
proof -
  let ?rest = "[(''name'', zNullish zString),
        (''startTime'', zNullish (zDatetime dt)),
        (''endTime'', zNullish (zDatetime dt)),
        (''model'', zNullish zString),
        (''modelParameters'', modelParametersSchema),
        (''prompt'', zNullish zUnknown),
        (''completion'', zNullish zString),
        (''usage'', usageSchema),
        (''metadata'', zNullish zUnknown),
        (''parentObservationId'', zNullish zString),
        (''level'', zNullish (zNativeEnum ObservationLevel)),
        (''statusMessage'', zNullish zString)]"
  from parse obtain kvs where b: "b = JObj kvs"
    unfolding GenerationsCreateSchema_def by (cases b) auto
  have has: "hasKey b ''traceId''"
  proof (rule ccontr)
    assume "\<not> hasKey b ''traceId''"
    then have "getProp b ''traceId'' = JUndefined" unfolding b by (simp add: hasKey_JObj getProp_absent)
    with empty show False by simp
  qed
  have same: "zShape ?rest (deleteProp ''traceId'' b) = zShape ?rest b"
    unfolding b by (rule zShape_cong) (auto simp del: deleteProp.simps simp add: getProp_deleteProp hasKey_deleteProp)
  have first: "zNullish zString (getProp b ''traceId'') = Some (JStr [])"
    by (simp add: empty zNullish_def isNullish_def)
  have first': "zNullish zString (getProp (deleteProp ''traceId'' b) ''traceId'') = Some JUndefined"
    unfolding b getProp_deleteProp by (simp add: zNullish_def isNullish_def)
  have nohas: "\<not> hasKey (deleteProp ''traceId'' b) ''traceId''"
    unfolding b hasKey_deleteProp by simp
  have full: "zShape ((''traceId'', zNullish zString) # ?rest) b =
                map_option (\<lambda>out. (''traceId'', JStr []) # out) (zShape ?rest b)"
    using zShape_Cons_present[of "zNullish zString" b "''traceId''" "JStr []" ?rest, OF first has] .
  have full': "zShape ((''traceId'', zNullish zString) # ?rest) (deleteProp ''traceId'' b) = zShape ?rest b"
    using zShape_Cons_absent[of "zNullish zString" "deleteProp ''traceId'' b" "''traceId''" ?rest, OF first' nohas] same
    by (simp only:)
  from parse have "map_option JObj (zShape ((''traceId'', zNullish zString) # ?rest) b) = Some p"
    unfolding GenerationsCreateSchema_def by (simp add: b)
  then obtain out where out: "zShape ?rest b = Some out" and p: "p = JObj ((''traceId'', JStr []) # out)"
    unfolding full by (cases "zShape ?rest b") auto
  have notin: "''traceId'' \<notin> fst ` set out" using zShape_keys_subset[OF out] by auto
  have d: "deleteProp ''traceId'' b = JObj (filter (\<lambda>(k', v). k' \<noteq> ''traceId'') kvs)"
    by (simp add: b)
  have "GenerationsCreateSchema dt (deleteProp ''traceId'' b) =
          map_option JObj (zShape ((''traceId'', zNullish zString) # ?rest) (deleteProp ''traceId'' b))"
    unfolding GenerationsCreateSchema_def d by (simp only: zObject.simps)
  then have "GenerationsCreateSchema dt (deleteProp ''traceId'' b) = Some (JObj out)"
    by (simp only: full' out option.map)
  with p notin show ?thesis by blast
qed

lemma createData_props:
  "createData sc p =
     JObj
       [(''trace'',
         if truthy (getProp p ''traceId'')
         then JObj [(''connect'', JObj [(''id'', getProp p ''traceId'')])]
         else JObj [(''create'', JObj
                [(''name'', getProp p ''name''),
                 (''project'', JObj [(''connect'', JObj [(''id'', JStr (projectId sc))])])])]),
        (''type'', ObservationType_GENERATION),
        (''name'', getProp p ''name''),
        (''startTime'', if truthy (getProp p ''startTime'') then newDate (getProp p ''startTime'') else JUndefined),
        (''endTime'', if truthy (getProp p ''endTime'') then newDate (getProp p ''endTime'') else JUndefined),
        (''metadata'', nullishCoalesce (getProp p ''metadata'') JUndefined),
        (''model'', nullishCoalesce (getProp p ''model'') JUndefined),
        (''modelParameters'', nullishCoalesce (getProp p ''modelParameters'') JUndefined),
        (''input'', nullishCoalesce (getProp p ''prompt'') JUndefined),
        (''output'', if truthy (getProp p ''completion'')
                     then JObj [(''completion'', getProp p ''completion'')] else JUndefined),
        (''usage'', calculatedUsage (getProp p ''usage'')),
        (''level'', nullishCoalesce (getProp p ''level'') JUndefined),
        (''statusMessage'', nullishCoalesce (getProp p ''statusMessage'') JUndefined),
        (''parent'', if truthy (getProp p ''parentObservationId'')
                     then JObj [(''connect'', JObj [(''id'', getProp p ''parentObservationId'')])]
                     else JUndefined)]"
  by (simp add: createData_def Let_def assign_Cons assign_Nil)

lemma createData_cong:
  assumes "\<not> truthy (getProp p ''traceId'')" "\<not> truthy (getProp p' ''traceId'')"
    and "\<And>k. k \<noteq> ''traceId'' \<Longrightarrow> getProp p k = getProp p' k"
  shows "createData sc p = createData sc p'"
  unfolding createData_props using assms(1,2) by (simp add: assms(3))

lemma columns_createData_keys:
  "k \<in> {''id'', ''traceId'', ''parentObservationId''} \<Longrightarrow> k \<notin> fst ` set (columns (createData sc p))"
  unfolding columns_def createData_props by (rule keys_filter) auto

section \<open>Facts about the patch path\<close>

text \<open>The payload the patch schema returns, and the data of the update written out.\<close>

lemma patch_parse_shape:
  assumes "GenerationPatchSchema dt b = Some p"
  shows "\<exists>out. p = JObj out \<and>
     zShape
       [(''generationId'', zString),
        (''name'', zNullish zString),
        (''endTime'', zNullish (zDatetime dt)),
        (''model'', zNullish zString),
        (''modelParameters'', modelParametersSchema),
        (''prompt'', zNullish zUnknown),
        (''completion'', zNullish zString),
        (''usage'', usageSchema),
        (''metadata'', zNullish zUnknown),
        (''level'', zNullish (zNativeEnum ObservationLevel)),
        (''statusMessage'', zNullish zString)] b = Some out"
  using assms unfolding GenerationPatchSchema_def by (rule zObject_Some)

lemma patch_parse_field:
  assumes "GenerationPatchSchema dt b = Some p"
    and "(k, s) \<in> set
       [(''generationId'', zString),
        (''name'', zNullish zString),
        (''endTime'', zNullish (zDatetime dt)),
        (''model'', zNullish zString),
        (''modelParameters'', modelParametersSchema),
        (''prompt'', zNullish zUnknown),
        (''completion'', zNullish zString),
        (''usage'', usageSchema),
        (''metadata'', zNullish zUnknown),
        (''level'', zNullish (zNativeEnum ObservationLevel)),
        (''statusMessage'', zNullish zString)]"
  shows "s (getProp b k) = Some (getProp p k)"
proof -
  from patch_parse_shape[OF assms(1)] obtain out where p: "p = JObj out" and
    sh: "zShape
       [(''generationId'', zString),
        (''name'', zNullish zString),
        (''endTime'', zNullish (zDatetime dt)),
        (''model'', zNullish zString),
        (''modelParameters'', modelParametersSchema),
        (''prompt'', zNullish zUnknown),
        (''completion'', zNullish zString),
        (''usage'', usageSchema),
        (''metadata'', zNullish zUnknown),
        (''level'', zNullish (zNativeEnum ObservationLevel)),
        (''statusMessage'', zNullish zString)] b = Some out" by blast
  show ?thesis unfolding p by (rule zShape_getProp[OF sh _ assms(2)]) simp
qed

lemma patch_parse_keys:
  assumes "GenerationPatchSchema dt b = Some p"
  shows "distinct (map fst (entries p)) \<and>
         fst ` set (entries p) \<subseteq>
           {''generationId'', ''name'', ''endTime'', ''model'', ''modelParameters'', ''prompt'',
            ''completion'', ''usage'', ''metadata'', ''level'', ''statusMessage''}"
proof -
  from patch_parse_shape[OF assms] obtain out where p: "p = JObj out" and
    sh: "zShape
       [(''generationId'', zString),
        (''name'', zNullish zString),
        (''endTime'', zNullish (zDatetime dt)),
        (''model'', zNullish zString),
        (''modelParameters'', modelParametersSchema),
        (''prompt'', zNullish zUnknown),
        (''completion'', zNullish zString),
        (''usage'', usageSchema),
        (''metadata'', zNullish zUnknown),
        (''level'', zNullish (zNativeEnum ObservationLevel)),
        (''statusMessage'', zNullish zString)] b = Some out" by blast
  have "distinct (map fst out)" by (rule zShape_distinct[OF sh]) simp
  moreover have "fst ` set out \<subseteq>
           {''generationId'', ''name'', ''endTime'', ''model'', ''modelParameters'', ''prompt'',
            ''completion'', ''usage'', ''metadata'', ''level'', ''statusMessage''}"
    using zShape_keys_subset[OF sh] by simp
  ultimately show ?thesis by (simp add: p)
qed

lemma patch_parse_nullish:
  assumes parse: "GenerationPatchSchema dt b = Some p"
    and key: "k \<in> set [''name'', ''model'', ''modelParameters'', ''metadata'', ''level'', ''statusMessage'']"
  shows "isNullish (getProp p k) = isNullish (getProp b k)
         \<and> (k = ''modelParameters'' \<or> getProp p k = getProp b k)"
proof -
  consider "k \<in> {''name'', ''model'', ''statusMessage''}" | "k = ''metadata''" | "k = ''level''"
    | "k = ''modelParameters''" using key by auto
  then show ?thesis
  proof cases
    case 1
    then have "zNullish zString (getProp b k) = Some (getProp p k)"
      by (intro patch_parse_field[OF parse]) auto
    from zNullish_zString[OF this] show ?thesis by simp
  next
    case 2
    then have "zNullish zUnknown (getProp b k) = Some (getProp p k)"
      by (intro patch_parse_field[OF parse]) auto
    from zNullish_zUnknown[OF this] show ?thesis by simp
  next
    case 3
    then have "zNullish (zNativeEnum ObservationLevel) (getProp b k) = Some (getProp p k)"
      by (intro patch_parse_field[OF parse]) auto
    from zNullish_zNativeEnum[OF this] show ?thesis by simp
  next
    case 4
    then have "modelParametersSchema (getProp b k) = Some (getProp p k)"
      by (intro patch_parse_field[OF parse]) auto
    from modelParametersSchema_nullish[OF this] 4 show ?thesis by simp
  qed
qed

lemma patchData_props:
  assumes "GenerationPatchSchema dt b = Some p"
  shows "patchData p =
     JObj ([(''endTime'', if truthy (getProp p ''endTime'') then newDate (getProp p ''endTime'') else JUndefined),
            (''input'', nullishCoalesce (getProp p ''prompt'') JUndefined),
            (''output'', if truthy (getProp p ''completion'')
                         then JObj [(''completion'', getProp p ''completion'')] else JUndefined),
            (''usage'', calculatedUsage (getProp p ''usage''))] @
           filter (\<lambda>(k, v). v \<noteq> JNull \<and> v \<noteq> JUndefined)
             (filter (\<lambda>(k, v). k \<notin> set [''generationId'', ''endTime'', ''prompt'', ''completion'', ''usage''])
                (entries p)))"
proof -
  let ?F = "filter (\<lambda>(k, v). v \<noteq> JNull \<and> v \<noteq> JUndefined)
             (filter (\<lambda>(k, v). k \<notin> set [''generationId'', ''endTime'', ''prompt'', ''completion'', ''usage''])
                (entries p))"
  let ?base = "[(''endTime'', if truthy (getProp p ''endTime'') then newDate (getProp p ''endTime'') else JUndefined),
            (''input'', nullishCoalesce (getProp p ''prompt'') JUndefined),
            (''output'', if truthy (getProp p ''completion'')
                         then JObj [(''completion'', getProp p ''completion'')] else JUndefined),
            (''usage'', calculatedUsage (getProp p ''usage''))]"
  note k = patch_parse_keys[OF assms]
  have dF: "distinct (map fst ?F)" using k by (simp add: distinct_map_filter)
  have kF: "fst ` set ?F \<subseteq> {''name'', ''model'', ''modelParameters'', ''metadata'', ''level'', ''statusMessage''}"
    using k by auto
  have 1: "assign [] ?F = ?F" using assign_distinct[of "[]" ?F] dF by simp
  have "distinct (map fst (?base @ ?F))" using dF kF by auto
  then have 2: "assign ?base ?F = ?base @ ?F" by (rule assign_distinct)
  show ?thesis
    unfolding patchData_def Let_def restProps_def fromEntries_def entries.simps 1 2 ..
qed

lemma patchData_keys:
  assumes "GenerationPatchSchema dt b = Some p"
  shows "distinct (map fst (entries (patchData p))) \<and>
         fst ` set (entries (patchData p)) \<subseteq>
           {''endTime'', ''input'', ''output'', ''usage'',
            ''name'', ''model'', ''modelParameters'', ''metadata'', ''level'', ''statusMessage''}"
proof -
  let ?F = "filter (\<lambda>(k, v). v \<noteq> JNull \<and> v \<noteq> JUndefined)
             (filter (\<lambda>(k, v). k \<notin> set [''generationId'', ''endTime'', ''prompt'', ''completion'', ''usage''])
                (entries p))"
  note k = patch_parse_keys[OF assms]
  have dF: "distinct (map fst ?F)" using k by (simp add: distinct_map_filter)
  have kF: "fst ` set ?F \<subseteq> {''name'', ''model'', ''modelParameters'', ''metadata'', ''level'', ''statusMessage''}"
    using k by auto
  show ?thesis unfolding patchData_props[OF assms] entries.simps using dF kF by auto
qed

section \<open>Facts about the store and the access check\<close>

text \<open>One foreign ref fails the check; a create without a trace id adds a trace; an update of an existing record sets the keys of its data that are defined.\<close>

lemma checkApiAccessScope_mem:
  "r \<in> set refs \<Longrightarrow> ownerProject st r \<noteq> Some (projectId sc) \<Longrightarrow> \<not> checkApiAccessScope st sc refs"
  by (auto simp: checkApiAccessScope_def list_all_iff)

lemma create_new_trace:
  assumes "\<not> truthy (getProp p ''traceId'')"
    and "prisma_observation_create newId (createData sc p) st = Inr (obs, st')"
  shows "traces st (newId (cuids st)) = None
       \<and> traces st' = (traces st)(newId (cuids st) \<mapsto>
            \<lparr>trace_name = nullishCoalesce (getProp p ''name'') JNull, trace_projectId = projectId sc\<rparr>)
       \<and> getProp obs ''traceId'' = JStr (newId (cuids st))
       \<and> observations st' = (observations st)(newId (Suc (cuids st)) \<mapsto> obs)"
proof -
  let ?tr = "JObj [(''create'', JObj
                [(''name'', getProp p ''name''),
                 (''project'', JObj [(''connect'', JObj [(''id'', JStr (projectId sc))])])])]"
  have tr: "getProp (createData sc p) ''trace'' = ?tr"
    using assms(1) unfolding createData_props by (simp add: getProp_Cons)
  let ?t = "newId (cuids st)"
  let ?st1 = "st\<lparr>traces := (traces st)(?t \<mapsto>
                 \<lparr>trace_name = nullishCoalesce (getProp p ''name'') JNull, trace_projectId = projectId sc\<rparr>),
               cuids := Suc (cuids st)\<rparr>"
  have rt: "resolveTrace newId ?tr st = (if traces st ?t = None then Inr (?t, ?st1) else Inl StoreFailure)"
    by (simp add: resolveTrace_def hasKey_JObj getProp_Cons Let_def)
  from assms(2) have fresh: "traces st ?t = None"
    by (auto simp: prisma_observation_create_def tr rt split: if_splits)
  with rt have rt': "resolveTrace newId ?tr st = Inr (?t, ?st1)" by simp
  from assms(2) obtain par where
    obs: "obs = JObj (assign [(''id'', JStr (newId (Suc (cuids st)))), (''traceId'', JStr ?t),
                             (''parentObservationId'', par)] (columns (createData sc p)))"
    and st': "st' = ?st1\<lparr>observations := (observations ?st1)(newId (Suc (cuids st)) \<mapsto> obs),
                       cuids := Suc (cuids ?st1)\<rparr>"
    by (auto simp: prisma_observation_create_def tr rt' Let_def split: sum.splits if_splits)
  have "getProp obs ''traceId'' = JStr ?t"
    unfolding obs by (simp add: getProp_assign_other[OF columns_createData_keys] getProp_Cons)
  with fresh st' show ?thesis by simp
qed

lemma update_existing:
  assumes d: "distinct (map fst (entries data))"
    and stored: "observations st i = Some row"
  shows "\<exists>row'. prisma_observation_update (JObj [(''id'', JStr i)]) data st =
                   Inr (row', st\<lparr>observations := (observations st)(i \<mapsto> row')\<rparr>)
              \<and> (\<forall>k. getProp row' k = (if getProp data k = JUndefined then getProp row k else getProp data k))"
proof -
  let ?D = "filter (\<lambda>(k, v). v \<noteq> JUndefined) (entries data)"
  let ?row' = "JObj (assign (entries row) ?D)"
  have dD: "distinct (map fst ?D)" using d by (simp add: distinct_map_filter)
  have u: "prisma_observation_update (JObj [(''id'', JStr i)]) data st =
             Inr (?row', st\<lparr>observations := (observations st)(i \<mapsto> ?row')\<rparr>)"
    by (simp add: prisma_observation_update_def getProp_Cons stored Let_def)
  have e: "JObj (entries data) = data \<or> entries data = []" by (cases data) auto
  have gd: "getProp (JObj (entries data)) k = getProp data k" for k by (simp add: getProp_def)
  have gr: "getProp (JObj (entries row)) k = getProp row k" for k by (simp add: getProp_def)
  have "getProp ?row' k = (if getProp data k = JUndefined then getProp row k else getProp data k)" for k
  proof -
    have in_iff: "k \<in> fst ` set ?D \<longleftrightarrow> (k \<in> fst ` set (entries data) \<and> getProp data k \<noteq> JUndefined)"
      using hasKey_filter[OF d, of "\<lambda>(k, v). v \<noteq> JUndefined" k] by (simp add: hasKey_JObj gd)
    have val: "getProp (JObj ?D) k =
                 (if k \<in> fst ` set (entries data) \<and> getProp data k \<noteq> JUndefined then getProp data k else JUndefined)"
      using getProp_filter[OF d, of "\<lambda>(k, v). v \<noteq> JUndefined" k] by (simp add: gd)
    have absent: "k \<notin> fst ` set (entries data) \<Longrightarrow> getProp data k = JUndefined"
      using getProp_absent[of k "entries data"] by (simp add: gd)
    show ?thesis
      unfolding getProp_assign_distinct[OF dD] in_iff val gr using absent by auto
  qed
  with u show ?thesis by blast
qed

section \<open>The paths through the handler\<close>

text \<open>One equation for each way a request can go.\<close>

lemma db_called: "db (called c w) = db w"
  by (simp add: called_def)

lemma calls_called: "calls (called c w) = calls w @ [c]"
  by (simp add: called_def)

lemma handler_not_POST:
  "httpMethod req \<noteq> ''POST'' \<Longrightarrow> handler e req w = (MethodNotAllowed, called RunCors w)"
  by (simp add: handler_def Let_def)

lemma handler_POST_invalid:
  "httpMethod req = ''POST'' \<Longrightarrow> verifyAuthHeaderAndReturnScope e (authorization req) = InvalidKey msg \<Longrightarrow>
   handler e req w = (Unauthorized msg, called (VerifyAuth (authorization req)) (called RunCors w))"
  by (simp add: handler_def Let_def)

lemma handler_POST_valid:
  "httpMethod req = ''POST'' \<Longrightarrow> verifyAuthHeaderAndReturnScope e (authorization req) = ValidKey sc \<Longrightarrow>
   handler e req w = postBranch e sc (body req) (called (VerifyAuth (authorization req)) (called RunCors w))"
  by (simp add: handler_def Let_def)

lemma postBranch_invalid:
  "GenerationsCreateSchema (isDatetime e) b = None \<Longrightarrow>
   postBranch e sc b w = (InvalidRequestData ZodError, called (ParseCreate b) w)"
  by (simp add: postBranch_def Let_def)

lemma postBranch_denied:
  "GenerationsCreateSchema (isDatetime e) b = Some p \<Longrightarrow>
   \<not> checkApiAccessScope (db w) sc (createRefs (getProp p ''traceId'') (getProp p ''parentObservationId'')) \<Longrightarrow>
   postBranch e sc b w =
     (AccessDenied,
      called (CheckApiAccessScope sc (createRefs (getProp p ''traceId'') (getProp p ''parentObservationId'')))
        (called (ParseCreate b) w))"
  by (simp add: postBranch_def Let_def db_called)

lemma postBranch_granted:
  "GenerationsCreateSchema (isDatetime e) b = Some p \<Longrightarrow>
   checkApiAccessScope (db w) sc (createRefs (getProp p ''traceId'') (getProp p ''parentObservationId'')) \<Longrightarrow>
   postBranch e sc b w =
     (let w3 = called (ObservationCreate (createData sc p))
                 (called (CheckApiAccessScope sc (createRefs (getProp p ''traceId'') (getProp p ''parentObservationId'')))
                   (called (ParseCreate b) w))
      in case prisma_observation_create (cuid e) (createData sc p) (db w) of
           Inl err \<Rightarrow> (InvalidRequestData err, w3)
         | Inr (newObservation, st) \<Rightarrow> (Created newObservation, w3\<lparr>db := st\<rparr>))"
  by (simp add: postBranch_def Let_def db_called)

lemma postBranch_Created:
  assumes "postBranch e sc b w = (Created obs, w')"
  shows "\<exists>p st. GenerationsCreateSchema (isDatetime e) b = Some p
           \<and> checkApiAccessScope (db w) sc (createRefs (getProp p ''traceId'') (getProp p ''parentObservationId''))
           \<and> prisma_observation_create (cuid e) (createData sc p) (db w) = Inr (obs, st)
           \<and> db w' = st
           \<and> calls w' = calls w @ [ParseCreate b,
                 CheckApiAccessScope sc (createRefs (getProp p ''traceId'') (getProp p ''parentObservationId'')),
                 ObservationCreate (createData sc p)]"
  using assms
  by (auto simp: postBranch_def Let_def db_called calls_called called_def
      split: option.splits if_splits sum.splits prod.splits)

section \<open>The sample requests evaluated\<close>

text \<open>What the schemas, the access check and the handler give on the sample payloads.\<close>

lemma usageSchema_sample1:
  "usageSchema (JObj [(''promptTokens'', JNum (num 10)), (''completionTokens'', JNum (num 5))]) =
   Some (JObj [(''promptTokens'', JNum (num 10)), (''completionTokens'', JNum (num 5))])"
  by (simp add: usageSchema_def getProp_def hasKey_def zNullish_def isNullish_def num_not_NaN)

lemma patch_parse1: "GenerationPatchSchema sampleDatetime (body patchRequest1) = Some (body patchRequest1)"
  by (simp add: patchRequest1_def GenerationPatchSchema_def usageSchema_def modelParametersSchema_def
      getProp_def hasKey_def zNullish_def isNullish_def zUnknown_def num_not_NaN)

lemma patch_access1:
  "checkApiAccessScope store0 \<lparr>projectId = ''p1''\<rparr>
     [JObj [(''type'', JStr ''observation''), (''id'', getProp (body patchRequest1) ''generationId'')]]"
  by (simp add: checkApiAccessScope_def ownerProject_def store0_def row1_def row2_def patchRequest1_def getProp_def)

lemma postForeignTrace_parse:
  "GenerationsCreateSchema sampleDatetime (body postForeignTrace) = Some (body postForeignTrace)"
  by (simp add: postForeignTrace_def GenerationsCreateSchema_def usageSchema_def modelParametersSchema_def
      getProp_def hasKey_def zNullish_def isNullish_def zUnknown_def)

lemma postNoTrace_parse:
  "GenerationsCreateSchema sampleDatetime (body postNoTrace) = Some (body postNoTrace)"
  by (simp add: postNoTrace_def GenerationsCreateSchema_def usageSchema_def modelParametersSchema_def
      getProp_def hasKey_def zNullish_def isNullish_def zUnknown_def)

lemma postEmptyTrace_parse:
  "GenerationsCreateSchema sampleDatetime (body postEmptyTrace) = Some (body postEmptyTrace)"
  by (simp add: postEmptyTrace_def GenerationsCreateSchema_def usageSchema_def modelParametersSchema_def
      getProp_def hasKey_def zNullish_def isNullish_def zUnknown_def)

lemma postNoTrace_created:
  "fst (handler env0 postNoTrace world0) =
     Created (JObj [(''id'', JStr ''cc''), (''traceId'', JStr ''c''), (''parentObservationId'', JNull),
                    (''type'', JStr ''GENERATION''), (''name'', JStr ''chat''),
                    (''usage'', JObj [(''totalTokens'', JUndefined)])])"
proof -
  have m: "httpMethod postNoTrace = ''POST''" by (simp add: postNoTrace_def)
  have a: "verifyAuthHeaderAndReturnScope env0 (authorization postNoTrace) = ValidKey \<lparr>projectId = ''p1''\<rparr>"
    by (simp add: postNoTrace_def env0_def)
  have p: "GenerationsCreateSchema (isDatetime env0) (body postNoTrace) = Some (body postNoTrace)"
    using postNoTrace_parse by (simp add: env0_def)
  have g: "getProp (body postNoTrace) k =
             (if k = ''name'' then JStr ''chat'' else if k = ''usage'' then JObj [] else JUndefined)" for k
    by (simp add: postNoTrace_def getProp_def)
  have refs: "createRefs (getProp (body postNoTrace) ''traceId'') (getProp (body postNoTrace) ''parentObservationId'') = []"
    by (simp add: g createRefs_def)
  have acc: "checkApiAccessScope st \<lparr>projectId = ''p1''\<rparr> []" for st
    by (simp add: checkApiAccessScope_def)
  have cr: "prisma_observation_create (cuid env0) (createData \<lparr>projectId = ''p1''\<rparr> (body postNoTrace)) store0 =
      Inr (JObj [(''id'', JStr ''cc''), (''traceId'', JStr ''c''), (''parentObservationId'', JNull),
                    (''type'', JStr ''GENERATION''), (''name'', JStr ''chat''),
                    (''usage'', JObj [(''totalTokens'', JUndefined)])],
           store0\<lparr>traces := (traces store0)(''c'' \<mapsto> \<lparr>trace_name = JStr ''chat'', trace_projectId = ''p1''\<rparr>),
                  cuids := Suc 0,
                  observations := (observations store0)(''cc'' \<mapsto>
                     JObj [(''id'', JStr ''cc''), (''traceId'', JStr ''c''), (''parentObservationId'', JNull),
                    (''type'', JStr ''GENERATION''), (''name'', JStr ''chat''),
                    (''usage'', JObj [(''totalTokens'', JUndefined)])]),
                  cuids := Suc (Suc 0)\<rparr>)"
    unfolding createData_props
    by (simp add: prisma_observation_create_def resolveTrace_def resolveParent_def columns_def g
        getProp_Cons getProp_Nil hasKey_JObj Let_def env0_def store0_def row1_def row2_def calculatedUsage_def
        assign_Cons assign_Nil nullishCoalesce_def isNullish_def ObservationType_GENERATION_def jsOr_def)
  show ?thesis
    unfolding handler_POST_valid[OF m a]
    using postBranch_granted[OF p, of "called (VerifyAuth (authorization postNoTrace)) (called RunCors world0)" "\<lparr>projectId = ''p1''\<rparr>"]
    by (simp add: refs acc db_called world0_def cr Let_def)
qed

lemma bodyHello_parse: "GenerationsCreateSchema sampleDatetime bodyHello = Some bodyHello"
  by (simp add: bodyHello_def GenerationsCreateSchema_def usageSchema_def modelParametersSchema_def
      getProp_def hasKey_def zNullish_def isNullish_def zUnknown_def)

lemma bodyEmptyCompletion_parse:
  "GenerationsCreateSchema sampleDatetime bodyEmptyCompletion = Some bodyEmptyCompletion"
  by (simp add: bodyEmptyCompletion_def GenerationsCreateSchema_def usageSchema_def modelParametersSchema_def
      getProp_def hasKey_def zNullish_def isNullish_def zUnknown_def)

lemma patchFinish_parse: "GenerationPatchSchema sampleDatetime patchFinish = Some patchFinish"
  by (simp add: patchFinish_def GenerationPatchSchema_def usageSchema_def modelParametersSchema_def
      getProp_def hasKey_def zNullish_def isNullish_def zUnknown_def sampleDatetime_def)

lemma patchMove_parse:
  "GenerationPatchSchema sampleDatetime patchMove =
     Some (JObj [(''generationId'', JStr ''g1''), (''usage'', JObj [])])"
  by (simp add: patchMove_def GenerationPatchSchema_def usageSchema_def modelParametersSchema_def
      getProp_def hasKey_def zNullish_def isNullish_def zUnknown_def)

lemma stored_g1: "observations store0 ''g1'' = Some row1"
  by (simp add: store0_def)

section \<open>The two branches in general\<close>

text \<open>
  On the create path: a POST request without a valid credential is answered 401 after
  the CORS middleware and the verifier have been called and nothing else; and a POST
  request with a valid credential and a payload the create schema accepts, whose
  \<^verbatim>\<open>traceId\<close> or \<^verbatim>\<open>parentObservationId\<close> is a non-empty string that does not resolve to
  the project of the scope, is answered 403 with the store as it was and no create
  called.
\<close>

lemma invalid_credential_401:
  assumes "httpMethod req = ''POST''"
    and "verifyAuthHeaderAndReturnScope e (authorization req) = InvalidKey msg"
  shows "handler e req w = (Unauthorized msg, w\<lparr>calls := calls w @ [RunCors, VerifyAuth (authorization req)]\<rparr>)
         \<and> status (fst (handler e req w)) = Some 401
         \<and> db (snd (handler e req w)) = db w
         \<and> filter isParseCall (calls (snd (handler e req w))) = filter isParseCall (calls w)
         \<and> filter isStoreCall (calls (snd (handler e req w))) = filter isStoreCall (calls w)"
  using assms by (simp add: handler_POST_invalid called_def)

lemma create_foreign_ref_403:
  assumes post: "httpMethod req = ''POST''"
    and auth: "verifyAuthHeaderAndReturnScope e (authorization req) = ValidKey sc"
    and parse: "GenerationsCreateSchema (isDatetime e) (body req) = Some p"
    and ref: "(k, ty) = (''traceId'', ''trace'') \<or> (k, ty) = (''parentObservationId'', ''observation'')"
    and supplied: "getProp (body req) k = JStr i" "i \<noteq> []"
    and foreign: "ownerProject (db w) (JObj [(''type'', JStr ty), (''id'', JStr i)]) \<noteq> Some (projectId sc)"
  shows "fst (handler e req w) = AccessDenied
         \<and> status (fst (handler e req w)) = Some 403
         \<and> db (snd (handler e req w)) = db w
         \<and> calls (snd (handler e req w)) =
             calls w @ [RunCors, VerifyAuth (authorization req), ParseCreate (body req),
                        CheckApiAccessScope sc (createRefs (getProp (body req) ''traceId'')
                                                          (getProp (body req) ''parentObservationId''))]
         \<and> filter isStoreCall (calls (snd (handler e req w))) = filter isStoreCall (calls w)"
proof -
  let ?w2 = "called (VerifyAuth (authorization req)) (called RunCors w)"
  let ?refs = "createRefs (getProp p ''traceId'') (getProp p ''parentObservationId'')"
  have t: "getProp p ''traceId'' = getProp (body req) ''traceId''"
    using create_parse_strings[OF parse, of "''traceId''"] by simp
  have par: "getProp p ''parentObservationId'' = getProp (body req) ''parentObservationId''"
    using create_parse_strings[OF parse, of "''parentObservationId''"] by simp
  have "JObj [(''type'', JStr ty), (''id'', JStr i)] \<in> set ?refs"
    using ref supplied t par by (auto simp: createRefs_def)
  then have "\<not> checkApiAccessScope (db ?w2) sc ?refs"
    using foreign checkApiAccessScope_mem[of _ ?refs "db w" sc] by (auto simp: db_called)
  then have "postBranch e sc (body req) ?w2 =
     (AccessDenied, called (CheckApiAccessScope sc ?refs) (called (ParseCreate (body req)) ?w2))"
    by (rule postBranch_denied[OF parse])
  then have "handler e req w =
     (AccessDenied, called (CheckApiAccessScope sc ?refs) (called (ParseCreate (body req)) ?w2))"
    by (simp add: handler_POST_valid[OF post auth])
  then show ?thesis by (simp add: db_called calls_called t par)
qed

text \<open>
  A create whose \<^verbatim>\<open>traceId\<close> is falsy succeeds in the store when the parent, if one
  is supplied, exists and the two ids the store draws are free; a parent that passed
  the access check exists.
\<close>

lemma access_parent:
  assumes "checkApiAccessScope st sc (createRefs t par)" and "truthy par"
  shows "\<exists>i. par = JStr i \<and> observations st i \<noteq> None"
proof -
  from assms have o: "ownerProject st (JObj [(''type'', JStr ''observation''), (''id'', par)]) = Some (projectId sc)"
    by (auto simp: checkApiAccessScope_def createRefs_def split: if_splits)
  then show ?thesis
    by (cases par) (auto simp: ownerProject_def getProp_Cons split: option.splits)
qed

lemma create_without_trace_succeeds:
  assumes nt: "\<not> truthy (getProp p ''traceId'')"
    and par: "\<not> truthy (getProp p ''parentObservationId'') \<or>
              (\<exists>i. getProp p ''parentObservationId'' = JStr i \<and> observations st i \<noteq> None)"
    and ft: "traces st (newId (cuids st)) = None"
    and fo: "observations st (newId (Suc (cuids st))) = None"
  shows "\<exists>obs st'. prisma_observation_create newId (createData sc p) st = Inr (obs, st')"
proof -
  let ?tr = "JObj [(''create'', JObj
                [(''name'', getProp p ''name''),
                 (''project'', JObj [(''connect'', JObj [(''id'', JStr (projectId sc))])])])]"
  let ?t = "newId (cuids st)"
  let ?st1 = "st\<lparr>traces := (traces st)(?t \<mapsto>
                 \<lparr>trace_name = nullishCoalesce (getProp p ''name'') JNull, trace_projectId = projectId sc\<rparr>),
               cuids := Suc (cuids st)\<rparr>"
  have tr: "getProp (createData sc p) ''trace'' = ?tr"
    using nt unfolding createData_props by (simp add: getProp_Cons)
  have rt: "resolveTrace newId ?tr st = Inr (?t, ?st1)"
    using ft by (simp add: resolveTrace_def hasKey_JObj getProp_Cons Let_def)
  have pa: "getProp (createData sc p) ''parent'' =
              (if truthy (getProp p ''parentObservationId'')
               then JObj [(''connect'', JObj [(''id'', getProp p ''parentObservationId'')])]
               else JUndefined)"
    unfolding createData_props by (simp add: getProp_Cons)
  have rp: "\<exists>v. resolveParent (getProp (createData sc p) ''parent'') ?st1 = Inr v"
    using par unfolding pa by (auto simp: resolveParent_def getProp_Cons)
  then obtain v where v: "resolveParent (getProp (createData sc p) ''parent'') ?st1 = Inr v" by blast
  show ?thesis
    using fo by (simp add: prisma_observation_create_def tr rt v Let_def)
qed

lemma create_falsy_traceId_served:
  assumes post: "httpMethod req = ''POST''"
    and auth: "verifyAuthHeaderAndReturnScope e (authorization req) = ValidKey sc"
    and parse: "GenerationsCreateSchema (isDatetime e) (body req) = Some p"
    and falsy: "\<not> truthy (getProp (body req) ''traceId'')"
    and access: "checkApiAccessScope (db w) sc
                   (createRefs (getProp (body req) ''traceId'') (getProp (body req) ''parentObservationId''))"
    and fresh_trace: "traces (db w) (cuid e (cuids (db w))) = None"
    and fresh_observation: "observations (db w) (cuid e (Suc (cuids (db w)))) = None"
  shows "\<exists>obs. fst (handler e req w) = Created obs
           \<and> status (fst (handler e req w)) = Some 201
           \<and> traces (db (snd (handler e req w))) = (traces (db w))(cuid e (cuids (db w)) \<mapsto>
                \<lparr>trace_name = (if getProp (body req) ''name'' = JUndefined then JNull
                               else getProp (body req) ''name''),
                 trace_projectId = projectId sc\<rparr>)
           \<and> observations (db (snd (handler e req w))) =
                (observations (db w))(cuid e (Suc (cuids (db w))) \<mapsto> obs)
           \<and> getProp obs ''traceId'' = JStr (cuid e (cuids (db w)))"
proof -
  let ?w2 = "called (VerifyAuth (authorization req)) (called RunCors w)"
  have t: "getProp p ''traceId'' = getProp (body req) ''traceId''"
    using create_parse_strings[OF parse, of "''traceId''"] by simp
  have pa: "getProp p ''parentObservationId'' = getProp (body req) ''parentObservationId''"
    using create_parse_strings[OF parse, of "''parentObservationId''"] by simp
  have n: "getProp p ''name'' = getProp (body req) ''name''"
    using create_parse_strings[OF parse, of "''name''"] by simp
  from falsy t have nt: "\<not> truthy (getProp p ''traceId'')" by simp
  have acc: "checkApiAccessScope (db ?w2) sc
               (createRefs (getProp p ''traceId'') (getProp p ''parentObservationId''))"
    using access by (simp add: t pa db_called)
  have par: "\<not> truthy (getProp p ''parentObservationId'') \<or>
              (\<exists>i. getProp p ''parentObservationId'' = JStr i \<and> observations (db w) i \<noteq> None)"
    using access_parent[OF access] pa by auto
  from create_without_trace_succeeds[OF nt par fresh_trace fresh_observation, of sc]
  obtain obs st' where cr: "prisma_observation_create (cuid e) (createData sc p) (db w) = Inr (obs, st')"
    by blast
  have h: "handler e req w =
      (Created obs,
       (called (ObservationCreate (createData sc p))
          (called (CheckApiAccessScope sc
                     (createRefs (getProp p ''traceId'') (getProp p ''parentObservationId'')))
             (called (ParseCreate (body req)) ?w2)))\<lparr>db := st'\<rparr>)"
    unfolding handler_POST_valid[OF post auth] postBranch_granted[OF parse acc]
    by (simp add: db_called cr Let_def)
  from create_new_trace[OF nt cr] show ?thesis
    unfolding h by (auto simp: n nullishCoalesce_def isNullish_def)
qed

text \<open>
  A create with \<^verbatim>\<open>traceId: ""\<close>: the calls it makes, the trace relation of its data,
  and the same request without the key.
\<close>

lemma empty_traceId_calls:
  assumes post: "httpMethod req = ''POST''"
    and auth: "verifyAuthHeaderAndReturnScope e (authorization req) = ValidKey sc"
    and empty: "getProp (body req) ''traceId'' = JStr []"
    and parse: "GenerationsCreateSchema (isDatetime e) (body req) = Some p"
  shows "calls (snd (handler e req w)) =
           calls w @ [RunCors, VerifyAuth (authorization req), ParseCreate (body req),
                      CheckApiAccessScope sc
                        (if truthy (getProp (body req) ''parentObservationId'')
                         then [JObj [(''type'', JStr ''observation''),
                                     (''id'', getProp (body req) ''parentObservationId'')]]
                         else [])]
             @ (if checkApiAccessScope (db w) sc
                     (if truthy (getProp (body req) ''parentObservationId'')
                      then [JObj [(''type'', JStr ''observation''),
                                  (''id'', getProp (body req) ''parentObservationId'')]]
                      else [])
                then [ObservationCreate (createData sc p)] else [])
         \<and> getProp (createData sc p) ''trace'' =
             JObj [(''create'', JObj
                     [(''name'', getProp (body req) ''name''),
                      (''project'', JObj [(''connect'', JObj [(''id'', JStr (projectId sc))])])])]
         \<and> fst (handler e req w) = fst (handler e (req\<lparr>body := deleteProp ''traceId'' (body req)\<rparr>) w)
         \<and> db (snd (handler e req w)) = db (snd (handler e (req\<lparr>body := deleteProp ''traceId'' (body req)\<rparr>) w))
         \<and> filter (\<lambda>c. \<not> isParseCall c) (calls (snd (handler e req w))) =
             filter (\<lambda>c. \<not> isParseCall c)
               (calls (snd (handler e (req\<lparr>body := deleteProp ''traceId'' (body req)\<rparr>) w)))"
proof -
  let ?req' = "req\<lparr>body := deleteProp ''traceId'' (body req)\<rparr>"
  let ?w2 = "called (VerifyAuth (authorization req)) (called RunCors w)"
  let ?prefs = "if truthy (getProp (body req) ''parentObservationId'')
                then [JObj [(''type'', JStr ''observation''),
                            (''id'', getProp (body req) ''parentObservationId'')]]
                else []"
  from create_parse_empty_traceId[OF parse empty] obtain out where
    p: "p = JObj ((''traceId'', JStr []) # out)" and notin: "''traceId'' \<notin> fst ` set out"
    and parse': "GenerationsCreateSchema (isDatetime e) (deleteProp ''traceId'' (body req)) = Some (JObj out)"
    by blast
  have t: "getProp p ''traceId'' = JStr []" by (simp add: p getProp_Cons)
  have t': "getProp (JObj out) ''traceId'' = JUndefined" using notin by (rule getProp_absent)
  have other: "\<And>k. k \<noteq> ''traceId'' \<Longrightarrow> getProp p k = getProp (JObj out) k"
    by (simp add: p getProp_Cons)
  have par: "getProp p ''parentObservationId'' = getProp (body req) ''parentObservationId''"
    using create_parse_strings[OF parse, of "''parentObservationId''"] by simp
  have n: "getProp p ''name'' = getProp (body req) ''name''"
    using create_parse_strings[OF parse, of "''name''"] by simp
  have refs: "createRefs (getProp p ''traceId'') (getProp p ''parentObservationId'') = ?prefs"
    by (simp add: createRefs_def t par)
  have refs': "createRefs (getProp (JObj out) ''traceId'') (getProp (JObj out) ''parentObservationId'') = ?prefs"
    using other[of "''parentObservationId''"] by (simp add: createRefs_def t' par)
  have data: "createData sc (JObj out) = createData sc p"
    by (rule createData_cong) (simp_all add: t t' other)
  have trace: "getProp (createData sc p) ''trace'' =
             JObj [(''create'', JObj
                     [(''name'', getProp (body req) ''name''),
                      (''project'', JObj [(''connect'', JObj [(''id'', JStr (projectId sc))])])])]"
    unfolding createData_props by (simp add: getProp_Cons t n)
  have h: "handler e req w = postBranch e sc (body req) ?w2"
    by (rule handler_POST_valid[OF post auth])
  have h': "handler e ?req' w = postBranch e sc (deleteProp ''traceId'' (body req)) ?w2"
    using handler_POST_valid[of ?req' e sc w] post auth by simp
  show ?thesis
  proof (cases "checkApiAccessScope (db w) sc ?prefs")
    case False
    have 1: "postBranch e sc (body req) ?w2 =
               (AccessDenied, called (CheckApiAccessScope sc ?prefs) (called (ParseCreate (body req)) ?w2))"
      using postBranch_denied[OF parse, of ?w2 sc] False by (simp add: refs db_called)
    have 2: "postBranch e sc (deleteProp ''traceId'' (body req)) ?w2 =
               (AccessDenied, called (CheckApiAccessScope sc ?prefs)
                  (called (ParseCreate (deleteProp ''traceId'' (body req))) ?w2))"
      using postBranch_denied[OF parse', of ?w2 sc] False by (simp only: refs' db_called) simp
    show ?thesis unfolding h h' 1 2 using False trace
      by (simp add: db_called calls_called)
  next
    case True
    have 1: "postBranch e sc (body req) ?w2 =
       (let w3 = called (ObservationCreate (createData sc p))
                   (called (CheckApiAccessScope sc ?prefs) (called (ParseCreate (body req)) ?w2))
        in case prisma_observation_create (cuid e) (createData sc p) (db w) of
             Inl err \<Rightarrow> (InvalidRequestData err, w3)
           | Inr (newObservation, st) \<Rightarrow> (Created newObservation, w3\<lparr>db := st\<rparr>))"
      using postBranch_granted[OF parse, of ?w2 sc] True by (simp add: refs db_called)
    have 2: "postBranch e sc (deleteProp ''traceId'' (body req)) ?w2 =
       (let w3 = called (ObservationCreate (createData sc p))
                   (called (CheckApiAccessScope sc ?prefs)
                      (called (ParseCreate (deleteProp ''traceId'' (body req))) ?w2))
        in case prisma_observation_create (cuid e) (createData sc p) (db w) of
             Inl err \<Rightarrow> (InvalidRequestData err, w3)
           | Inr (newObservation, st) \<Rightarrow> (Created newObservation, w3\<lparr>db := st\<rparr>))"
      using postBranch_granted[OF parse', of ?w2 sc] True by (simp only: refs' db_called data)
    show ?thesis unfolding h h' 1 2 using True trace
      by (cases "prisma_observation_create (cuid e) (createData sc p) (db w)")
         (auto simp: Let_def db_called calls_called called_def)
  qed
qed

text \<open>
  What the patch branch builds from a payload the patch schema accepts: the four keys it
  always sets, and the elision of the six optional fields.
\<close>

lemma patchData_passthrough:
  assumes parse: "GenerationPatchSchema dt b = Some p"
    and stored: "observations st i = Some row"
  shows "getProp (patchData p) ''endTime'' =
           (case getProp b ''endTime'' of
              JStr s \<Rightarrow> if s = [] then JUndefined else JDate s
            | _ \<Rightarrow> JUndefined)
       \<and> getProp (patchData p) ''input'' =
           (if getProp b ''prompt'' = JNull \<or> getProp b ''prompt'' = JUndefined then JUndefined
            else getProp b ''prompt'')
       \<and> getProp (patchData p) ''output'' =
           (case getProp b ''completion'' of
              JStr s \<Rightarrow> if s = [] then JUndefined else JObj [(''completion'', JStr s)]
            | _ \<Rightarrow> JUndefined)
       \<and> usageSchema (getProp b ''usage'') = Some (getProp p ''usage'')
       \<and> getProp (patchData p) ''usage'' = calculatedUsage (getProp p ''usage'')
       \<and> getProp (patchData p) ''usage'' \<noteq> JUndefined
       \<and> (\<exists>row'. prisma_observation_update (JObj [(''id'', JStr i)]) (patchData p) st =
                     Inr (row', st\<lparr>observations := (observations st)(i \<mapsto> row')\<rparr>)
                \<and> getProp row' ''endTime'' =
                    (if getProp (patchData p) ''endTime'' = JUndefined then getProp row ''endTime''
                     else getProp (patchData p) ''endTime'')
                \<and> getProp row' ''input'' =
                    (if getProp (patchData p) ''input'' = JUndefined then getProp row ''input''
                     else getProp (patchData p) ''input'')
                \<and> getProp row' ''output'' =
                    (if getProp (patchData p) ''output'' = JUndefined then getProp row ''output''
                     else getProp (patchData p) ''output'')
                \<and> getProp row' ''usage'' = getProp (patchData p) ''usage'')"
proof -
  have e: "zNullish (zDatetime dt) (getProp b ''endTime'') = Some (getProp p ''endTime'')"
    by (rule patch_parse_field[OF parse]) simp
  have pr: "zNullish zUnknown (getProp b ''prompt'') = Some (getProp p ''prompt'')"
    by (rule patch_parse_field[OF parse]) simp
  have c: "zNullish zString (getProp b ''completion'') = Some (getProp p ''completion'')"
    by (rule patch_parse_field[OF parse]) simp
  have u: "usageSchema (getProp b ''usage'') = Some (getProp p ''usage'')"
    by (rule patch_parse_field[OF parse]) simp
  have e': "getProp p ''endTime'' = getProp b ''endTime''" using zNullish_zDatetime[OF e] by simp
  have pr': "getProp p ''prompt'' = getProp b ''prompt''" using zNullish_zUnknown[OF pr] by simp
  have c': "getProp p ''completion'' = getProp b ''completion''" using zNullish_zString[OF c] by simp
  have 1: "getProp (patchData p) ''endTime'' =
           (case getProp b ''endTime'' of
              JStr s \<Rightarrow> if s = [] then JUndefined else JDate s
            | _ \<Rightarrow> JUndefined)"
    unfolding patchData_props[OF parse] getProp_append e'
    by (simp add: getProp_Cons zNullish_zDatetime_truthy[OF e])
  have 2: "getProp (patchData p) ''input'' =
           (if getProp b ''prompt'' = JNull \<or> getProp b ''prompt'' = JUndefined then JUndefined
            else getProp b ''prompt'')"
    unfolding patchData_props[OF parse] getProp_append pr'
    by (simp add: getProp_Cons nullishCoalesce_def isNullish_def)
  have 3: "getProp (patchData p) ''output'' =
           (case getProp b ''completion'' of
              JStr s \<Rightarrow> if s = [] then JUndefined else JObj [(''completion'', JStr s)]
            | _ \<Rightarrow> JUndefined)"
    unfolding patchData_props[OF parse] getProp_append c'
    by (simp add: getProp_Cons zNullish_zString_truthy[OF c])
  have 4: "getProp (patchData p) ''usage'' = calculatedUsage (getProp p ''usage'')"
    unfolding patchData_props[OF parse] getProp_append by (simp add: getProp_Cons)
  have 5: "getProp (patchData p) ''usage'' \<noteq> JUndefined"
    using usageSchema_object[OF u] calculatedUsage_defined unfolding 4 by auto
  from update_existing[OF conjunct1[OF patchData_keys[OF parse]] stored] obtain row' where
    upd: "prisma_observation_update (JObj [(''id'', JStr i)]) (patchData p) st =
           Inr (row', st\<lparr>observations := (observations st)(i \<mapsto> row')\<rparr>)"
    and r: "\<And>k. getProp row' k = (if getProp (patchData p) k = JUndefined then getProp row k else getProp (patchData p) k)"
    by blast
  have 6: "getProp row' ''usage'' = getProp (patchData p) ''usage''" using r[of "''usage''"] 5 by simp
  from 1 2 3 u 4 5 upd r[of "''endTime''"] r[of "''input''"] r[of "''output''"] 6
  show ?thesis by blast
qed

lemma patchData_elision:
  assumes parse: "GenerationPatchSchema dt b = Some p"
    and key: "k \<in> set [''name'', ''model'', ''modelParameters'', ''metadata'', ''level'', ''statusMessage'']"
    and stored: "observations st i = Some row"
  shows "hasKey (patchData p) k = (getProp b k \<noteq> JNull \<and> getProp b k \<noteq> JUndefined)
       \<and> getProp (patchData p) k =
           (if getProp b k = JNull \<or> getProp b k = JUndefined then JUndefined else getProp p k)
       \<and> (k = ''modelParameters'' \<or> getProp p k = getProp b k)
       \<and> (\<exists>row'. prisma_observation_update (JObj [(''id'', JStr i)]) (patchData p) st =
                     Inr (row', st\<lparr>observations := (observations st)(i \<mapsto> row')\<rparr>)
                \<and> getProp row' k =
                    (if getProp b k = JNull \<or> getProp b k = JUndefined then getProp row k else getProp p k))"
proof -
  note n = patch_parse_nullish[OF parse key]
  note pk = patch_parse_keys[OF parse]
  have gp: "getProp (JObj (entries p)) k' = getProp p k'" for k' by (simp add: getProp_def)
  have d1: "distinct (map fst (entries p))" using pk by simp
  have notbase: "k \<noteq> ''endTime''" "k \<noteq> ''input''" "k \<noteq> ''output''" "k \<noteq> ''usage''"
    using key by auto
  have notnamed: "k \<notin> set [''generationId'', ''endTime'', ''prompt'', ''completion'', ''usage'']"
    using key by auto
  have absent: "k \<notin> fst ` set (entries p) \<Longrightarrow> getProp p k = JUndefined"
    using getProp_absent[of k "entries p"] by (simp add: gp)
  have nb: "isNullish (getProp p k) = (getProp b k = JNull \<or> getProp b k = JUndefined)"
    using n by (simp add: isNullish_def)
  have g0: "getProp (patchData p) k = (if isNullish (getProp p k) then JUndefined else getProp p k)"
    unfolding patchData_props[OF parse] getProp_append getProp_filter2[OF d1] gp
    using notbase notnamed absent by (auto simp: isNullish_def)
  have h0: "hasKey (patchData p) k = (\<not> isNullish (getProp p k))"
    unfolding patchData_props[OF parse] hasKey_JObj set_append image_Un Un_iff keys_filter2[OF d1] gp
    using notbase notnamed absent by (auto simp: isNullish_def)
  from update_existing[OF conjunct1[OF patchData_keys[OF parse]] stored] obtain row' where
    u: "prisma_observation_update (JObj [(''id'', JStr i)]) (patchData p) st =
           Inr (row', st\<lparr>observations := (observations st)(i \<mapsto> row')\<rparr>)"
    and r: "getProp row' k = (if getProp (patchData p) k = JUndefined then getProp row k else getProp (patchData p) k)"
    by blast
  have r': "getProp row' k = (if getProp b k = JNull \<or> getProp b k = JUndefined then getProp row k else getProp p k)"
    unfolding r g0 nb[symmetric] by (auto simp: isNullish_def)
  have g: "getProp (patchData p) k =
           (if getProp b k = JNull \<or> getProp b k = JUndefined then JUndefined else getProp p k)"
    using g0 nb by simp
  have h: "hasKey (patchData p) k = (getProp b k \<noteq> JNull \<and> getProp b k \<noteq> JUndefined)"
    using h0 nb by simp
  from g h n u r' show ?thesis by blast
qed

text \<open>
  The sample patches: their payloads pass the patch schema.
\<close>

lemma patchRename_parse:
  "GenerationPatchSchema sampleDatetime (body patchRename) = Some (body patchRename)"
  by (simp add: patchRename_def GenerationPatchSchema_def usageSchema_def modelParametersSchema_def
      getProp_def hasKey_def zNullish_def isNullish_def zUnknown_def)

lemma patchForeign_parse:
  "GenerationPatchSchema sampleDatetime (body patchForeign) = Some (body patchForeign)"
  by (simp add: patchForeign_def GenerationPatchSchema_def usageSchema_def modelParametersSchema_def
      getProp_def hasKey_def zNullish_def isNullish_def zUnknown_def)

lemma patchNoCredential_parse:
  "GenerationPatchSchema sampleDatetime (body patchNoCredential) = Some (body patchNoCredential)"
  by (simp add: patchNoCredential_def GenerationPatchSchema_def usageSchema_def modelParametersSchema_def
      getProp_def hasKey_def zNullish_def isNullish_def zUnknown_def)

section \<open>The method test (claims C1, C3, C4, C5 and C8)\<close>

text \<open>
  Claim C1 at a PATCH request. The request carries the valid credential of project
  \<open>p1\<close>, its payload passes the patch schema and its \<^verbatim>\<open>generationId\<close> passes the
  access check, and the patch branch run on it would answer 201. The handler answers
  405 at line 63, before the credential is read: no request reaches the patch branch.
\<close>

theorem patch_request_405:
  "verifyAuthHeaderAndReturnScope env0 (authorization patchRequest1) = ValidKey \<lparr>projectId = ''p1''\<rparr>
   \<and> GenerationPatchSchema (isDatetime env0) (body patchRequest1) = Some (body patchRequest1)
   \<and> checkApiAccessScope (db world0) \<lparr>projectId = ''p1''\<rparr>
        [JObj [(''type'', JStr ''observation''), (''id'', getProp (body patchRequest1) ''generationId'')]]
   \<and> handler env0 patchRequest1 world0 = (MethodNotAllowed, world0\<lparr>calls := [RunCors]\<rparr>)
   \<and> status (fst (handler env0 patchRequest1 world0)) = Some 405
   \<and> status (fst (patchBranch env0 \<lparr>projectId = ''p1''\<rparr> (body patchRequest1) world0)) = Some 201"
proof -
  have auth: "verifyAuthHeaderAndReturnScope env0 (authorization patchRequest1) = ValidKey \<lparr>projectId = ''p1''\<rparr>"
    by (simp add: env0_def patchRequest1_def)
  have dt: "isDatetime env0 = sampleDatetime" by (simp add: env0_def)
  have m: "httpMethod patchRequest1 \<noteq> ''POST''" by (simp add: patchRequest1_def)
  have h: "handler env0 patchRequest1 world0 = (MethodNotAllowed, world0\<lparr>calls := [RunCors]\<rparr>)"
    by (simp add: handler_not_POST[OF m] called_def world0_def)
  have acc: "checkApiAccessScope (db world0) \<lparr>projectId = ''p1''\<rparr>
        [JObj [(''type'', JStr ''observation''), (''id'', getProp (body patchRequest1) ''generationId'')]]"
    using patch_access1 by (simp add: world0_def)
  have upd: "\<exists>row st. prisma_observation_update (JObj [(''id'', getProp (body patchRequest1) ''generationId'')])
          (patchData (body patchRequest1)) store0 = Inr (row, st)"
    by (simp add: prisma_observation_update_def store0_def row1_def row2_def patchRequest1_def getProp_def Let_def)
  have br: "status (fst (patchBranch env0 \<lparr>projectId = ''p1''\<rparr> (body patchRequest1) world0)) = Some 201"
    using acc upd by (auto simp add: patchBranch_def Let_def dt patch_parse1 called_def world0_def)
  show ?thesis using auth dt patch_parse1 acc h br by simp
qed

text \<open>
  Claim C3 at a PATCH request. The request carries the valid credential of project
  \<open>p1\<close>, its payload passes the patch schema, and its \<^verbatim>\<open>generationId\<close> names the
  generation \<open>g2\<close>, whose trace belongs to project \<open>p2\<close>. The patch branch run on
  it answers 403 after the access check, and the create path answers 403 to a create in
  the foreign trace \<open>t2\<close>. The handler answers the patch 405 at line 63: the access
  check is never called. The store is as it was.
\<close>

theorem patch_foreign_generation_405:
  "verifyAuthHeaderAndReturnScope env0 (authorization patchForeign) = ValidKey \<lparr>projectId = ''p1''\<rparr>
   \<and> GenerationPatchSchema (isDatetime env0) (body patchForeign) = Some (body patchForeign)
   \<and> getProp (body patchForeign) ''generationId'' = JStr ''g2''
   \<and> ownerProject (db world0) (JObj [(''type'', JStr ''observation''), (''id'', JStr ''g2'')]) = Some ''p2''
   \<and> handler env0 patchForeign world0 = (MethodNotAllowed, world0\<lparr>calls := [RunCors]\<rparr>)
   \<and> status (fst (handler env0 patchForeign world0)) = Some 405
   \<and> patchBranch env0 \<lparr>projectId = ''p1''\<rparr> (body patchForeign) world0 =
       (AccessDenied,
        world0\<lparr>calls := [ParsePatch (body patchForeign),
                          CheckApiAccessScope \<lparr>projectId = ''p1''\<rparr>
                            [JObj [(''type'', JStr ''observation''), (''id'', JStr ''g2'')]]]\<rparr>)
   \<and> status (fst (handler env0 postForeignTrace world0)) = Some 403"
proof -
  have auth: "verifyAuthHeaderAndReturnScope env0 (authorization patchForeign) = ValidKey \<lparr>projectId = ''p1''\<rparr>"
    by (simp add: env0_def patchForeign_def)
  have dt: "isDatetime env0 = sampleDatetime" by (simp add: env0_def)
  have g: "getProp (body patchForeign) ''generationId'' = JStr ''g2''"
    by (simp add: patchForeign_def getProp_def)
  have o: "ownerProject (db world0) (JObj [(''type'', JStr ''observation''), (''id'', JStr ''g2'')]) = Some ''p2''"
    by (simp add: ownerProject_def world0_def store0_def row1_def row2_def getProp_def)
  have m: "httpMethod patchForeign \<noteq> ''POST''" by (simp add: patchForeign_def)
  have h: "handler env0 patchForeign world0 = (MethodNotAllowed, world0\<lparr>calls := [RunCors]\<rparr>)"
    by (simp add: handler_not_POST[OF m] called_def world0_def)
  have den: "\<not> checkApiAccessScope (db world0) \<lparr>projectId = ''p1''\<rparr>
        [JObj [(''type'', JStr ''observation''), (''id'', JStr ''g2'')]]"
    using o by (simp add: checkApiAccessScope_def)
  have br: "patchBranch env0 \<lparr>projectId = ''p1''\<rparr> (body patchForeign) world0 =
       (AccessDenied,
        world0\<lparr>calls := [ParsePatch (body patchForeign),
                          CheckApiAccessScope \<lparr>projectId = ''p1''\<rparr>
                            [JObj [(''type'', JStr ''observation''), (''id'', JStr ''g2'')]]]\<rparr>)"
    using den by (simp add: patchBranch_def Let_def dt patchForeign_parse g called_def world0_def)
  have m2: "httpMethod postForeignTrace = ''POST''" by (simp add: postForeignTrace_def)
  have a2: "verifyAuthHeaderAndReturnScope env0 (authorization postForeignTrace) = ValidKey \<lparr>projectId = ''p1''\<rparr>"
    by (simp add: postForeignTrace_def env0_def)
  have p2: "GenerationsCreateSchema (isDatetime env0) (body postForeignTrace) = Some (body postForeignTrace)"
    using postForeignTrace_parse by (simp add: env0_def)
  have s2: "getProp (body postForeignTrace) ''traceId'' = JStr ''t2''"
    by (simp add: postForeignTrace_def getProp_def)
  have o2: "ownerProject (db world0) (JObj [(''type'', JStr ''trace''), (''id'', JStr ''t2'')])
              \<noteq> Some (projectId \<lparr>projectId = ''p1''\<rparr>)"
    by (simp add: ownerProject_def world0_def store0_def getProp_def)
  have ne: "''t2'' \<noteq> []" by simp
  have post403: "status (fst (handler env0 postForeignTrace world0)) = Some 403"
    using create_foreign_ref_403[OF m2 a2 p2 _ s2 ne o2] by simp
  from auth dt patchForeign_parse g o h br post403 show ?thesis by simp
qed

text \<open>
  Claim C4 at a PATCH request. The payload passes the patch schema and carries an end
  time, an empty prompt and a completion for the generation \<open>g1\<close> of the caller's
  project. The patch branch run on it would update \<open>g1\<close> with the end time, the empty
  prompt as input and the wrapped completion as output. The handler answers 405 at
  line 63: no update is called, and the stored output of \<open>g1\<close> is as it was.
\<close>

theorem patch_finish_405:
  "verifyAuthHeaderAndReturnScope env0 (authorization patchFinishRequest) = ValidKey \<lparr>projectId = ''p1''\<rparr>
   \<and> GenerationPatchSchema (isDatetime env0) (body patchFinishRequest) = Some (body patchFinishRequest)
   \<and> checkApiAccessScope (db world0) \<lparr>projectId = ''p1''\<rparr>
        [JObj [(''type'', JStr ''observation''), (''id'', getProp (body patchFinishRequest) ''generationId'')]]
   \<and> getProp (body patchFinishRequest) ''endTime'' = JStr ''2023-07-01T10:00:05Z''
   \<and> getProp (body patchFinishRequest) ''prompt'' = JStr []
   \<and> getProp (body patchFinishRequest) ''completion'' = JStr ''bye''
   \<and> getProp (body patchFinishRequest) ''usage'' = JObj []
   \<and> handler env0 patchFinishRequest world0 = (MethodNotAllowed, world0\<lparr>calls := [RunCors]\<rparr>)
   \<and> status (fst (handler env0 patchFinishRequest world0)) = Some 405
   \<and> observations (db (snd (handler env0 patchFinishRequest world0))) ''g1'' = Some row1
   \<and> getProp row1 ''endTime'' = JUndefined
   \<and> getProp row1 ''input'' = JUndefined
   \<and> getProp row1 ''output'' = JObj [(''completion'', JStr ''hello'')]
   \<and> getProp row1 ''usage'' = JUndefined
   \<and> patchData (body patchFinishRequest) =
        JObj [(''endTime'', JDate ''2023-07-01T10:00:05Z''), (''input'', JStr []),
              (''output'', JObj [(''completion'', JStr ''bye'')]),
              (''usage'', JObj [(''totalTokens'', JUndefined)])]
   \<and> snd (patchBranch env0 \<lparr>projectId = ''p1''\<rparr> (body patchFinishRequest) world0) =
        \<lparr>db = store0\<lparr>observations := (observations store0)(''g1'' \<mapsto>
                 JObj [(''id'', JStr ''g1''), (''traceId'', JStr ''t1''),
                       (''parentObservationId'', JNull), (''type'', JStr ''GENERATION''),
                       (''name'', JStr ''first''), (''startTime'', JDate ''2023-07-01T10:00:00Z''),
                       (''output'', JObj [(''completion'', JStr ''bye'')]),
                       (''endTime'', JDate ''2023-07-01T10:00:05Z''), (''input'', JStr []),
                       (''usage'', JObj [(''totalTokens'', JUndefined)])])\<rparr>,
         calls = [ParsePatch (body patchFinishRequest),
                  CheckApiAccessScope \<lparr>projectId = ''p1''\<rparr>
                    [JObj [(''type'', JStr ''observation''), (''id'', JStr ''g1'')]],
                  ObservationUpdate (JObj [(''id'', JStr ''g1'')]) (patchData (body patchFinishRequest))]\<rparr>"
proof -
  have b: "body patchFinishRequest = patchFinish" by (simp add: patchFinishRequest_def)
  have auth: "verifyAuthHeaderAndReturnScope env0 (authorization patchFinishRequest) = ValidKey \<lparr>projectId = ''p1''\<rparr>"
    by (simp add: env0_def patchFinishRequest_def)
  have dt: "isDatetime env0 = sampleDatetime" by (simp add: env0_def)
  have parse: "GenerationPatchSchema (isDatetime env0) (body patchFinishRequest) = Some (body patchFinishRequest)"
    by (simp add: dt b patchFinish_parse)
  have g: "getProp (body patchFinishRequest) ''generationId'' = JStr ''g1''"
    by (simp add: b patchFinish_def getProp_def)
  have acc: "checkApiAccessScope (db world0) \<lparr>projectId = ''p1''\<rparr>
        [JObj [(''type'', JStr ''observation''), (''id'', getProp (body patchFinishRequest) ''generationId'')]]"
    unfolding g
    by (simp add: checkApiAccessScope_def ownerProject_def world0_def store0_def row1_def row2_def getProp_def)
  have f: "getProp (body patchFinishRequest) ''endTime'' = JStr ''2023-07-01T10:00:05Z''"
    "getProp (body patchFinishRequest) ''prompt'' = JStr []"
    "getProp (body patchFinishRequest) ''completion'' = JStr ''bye''"
    "getProp (body patchFinishRequest) ''usage'' = JObj []"
    by (simp_all add: b patchFinish_def getProp_def)
  have m: "httpMethod patchFinishRequest \<noteq> ''POST''" by (simp add: patchFinishRequest_def)
  have h: "handler env0 patchFinishRequest world0 = (MethodNotAllowed, world0\<lparr>calls := [RunCors]\<rparr>)"
    by (simp add: handler_not_POST[OF m] called_def world0_def)
  have st: "observations (db (snd (handler env0 patchFinishRequest world0))) ''g1'' = Some row1"
    unfolding h by (simp add: world0_def stored_g1)
  have r: "getProp row1 ''endTime'' = JUndefined" "getProp row1 ''input'' = JUndefined"
    "getProp row1 ''output'' = JObj [(''completion'', JStr ''hello'')]"
    "getProp row1 ''usage'' = JUndefined"
    by (simp_all add: row1_def getProp_def)
  have pd: "patchData (body patchFinishRequest) =
        JObj [(''endTime'', JDate ''2023-07-01T10:00:05Z''), (''input'', JStr []),
              (''output'', JObj [(''completion'', JStr ''bye'')]),
              (''usage'', JObj [(''totalTokens'', JUndefined)])]"
    by (simp add: b patchFinish_def patchData_def Let_def getProp_def restProps_def
        nullishCoalesce_def calculatedUsage_def jsOr_def isNullish_def fromEntries_def
        assign_Nil assign_Cons)
  have br: "snd (patchBranch env0 \<lparr>projectId = ''p1''\<rparr> (body patchFinishRequest) world0) =
        \<lparr>db = store0\<lparr>observations := (observations store0)(''g1'' \<mapsto>
                 JObj [(''id'', JStr ''g1''), (''traceId'', JStr ''t1''),
                       (''parentObservationId'', JNull), (''type'', JStr ''GENERATION''),
                       (''name'', JStr ''first''), (''startTime'', JDate ''2023-07-01T10:00:00Z''),
                       (''output'', JObj [(''completion'', JStr ''bye'')]),
                       (''endTime'', JDate ''2023-07-01T10:00:05Z''), (''input'', JStr []),
                       (''usage'', JObj [(''totalTokens'', JUndefined)])])\<rparr>,
         calls = [ParsePatch (body patchFinishRequest),
                  CheckApiAccessScope \<lparr>projectId = ''p1''\<rparr>
                    [JObj [(''type'', JStr ''observation''), (''id'', JStr ''g1'')]],
                  ObservationUpdate (JObj [(''id'', JStr ''g1'')]) (patchData (body patchFinishRequest))]\<rparr>"
    using acc
    by (simp add: patchBranch_def Let_def parse g called_def world0_def pd
        prisma_observation_update_def getProp_Cons stored_g1 row1_def assign_Nil assign_Cons)
  show ?thesis
    apply (intro conjI)
    apply (rule auth) apply (rule parse) apply (rule acc)
    apply (rule f(1)) apply (rule f(2)) apply (rule f(3)) apply (rule f(4))
    apply (rule h) apply (simp add: h) apply (rule st)
    apply (rule r(1)) apply (rule r(2)) apply (rule r(3)) apply (rule r(4))
    apply (rule pd) apply (rule br)
    done
qed

text \<open>
  Claim C5 at a PATCH request. The payload passes the patch schema and carries the name
  \<open>foo\<close> for the generation \<open>g1\<close> of the caller's project, stored under the name
  \<open>first\<close>. The patch branch run on it would store the name \<open>foo\<close>. The handler
  answers 405 at line 63: no update is called and the stored name is still \<open>first\<close>.
\<close>

theorem patch_rename_405:
  "verifyAuthHeaderAndReturnScope env0 (authorization patchRename) = ValidKey \<lparr>projectId = ''p1''\<rparr>
   \<and> GenerationPatchSchema (isDatetime env0) (body patchRename) = Some (body patchRename)
   \<and> checkApiAccessScope (db world0) \<lparr>projectId = ''p1''\<rparr>
        [JObj [(''type'', JStr ''observation''), (''id'', getProp (body patchRename) ''generationId'')]]
   \<and> getProp (body patchRename) ''name'' = JStr ''foo''
   \<and> handler env0 patchRename world0 = (MethodNotAllowed, world0\<lparr>calls := [RunCors]\<rparr>)
   \<and> status (fst (handler env0 patchRename world0)) = Some 405
   \<and> observations (db (snd (handler env0 patchRename world0))) ''g1'' = Some row1
   \<and> getProp row1 ''name'' = JStr ''first''
   \<and> patchData (body patchRename) =
        JObj [(''endTime'', JUndefined), (''input'', JUndefined), (''output'', JUndefined),
              (''usage'', JObj [(''totalTokens'', JUndefined)]), (''name'', JStr ''foo'')]
   \<and> snd (patchBranch env0 \<lparr>projectId = ''p1''\<rparr> (body patchRename) world0) =
        \<lparr>db = store0\<lparr>observations := (observations store0)(''g1'' \<mapsto>
                 JObj [(''id'', JStr ''g1''), (''traceId'', JStr ''t1''),
                       (''parentObservationId'', JNull), (''type'', JStr ''GENERATION''),
                       (''name'', JStr ''foo''), (''startTime'', JDate ''2023-07-01T10:00:00Z''),
                       (''output'', JObj [(''completion'', JStr ''hello'')]),
                       (''usage'', JObj [(''totalTokens'', JUndefined)])])\<rparr>,
         calls = [ParsePatch (body patchRename),
                  CheckApiAccessScope \<lparr>projectId = ''p1''\<rparr>
                    [JObj [(''type'', JStr ''observation''), (''id'', JStr ''g1'')]],
                  ObservationUpdate (JObj [(''id'', JStr ''g1'')]) (patchData (body patchRename))]\<rparr>"
proof -
  have auth: "verifyAuthHeaderAndReturnScope env0 (authorization patchRename) = ValidKey \<lparr>projectId = ''p1''\<rparr>"
    by (simp add: env0_def patchRename_def)
  have dt: "isDatetime env0 = sampleDatetime" by (simp add: env0_def)
  have parse: "GenerationPatchSchema (isDatetime env0) (body patchRename) = Some (body patchRename)"
    by (simp add: dt patchRename_parse)
  have g: "getProp (body patchRename) ''generationId'' = JStr ''g1''"
    by (simp add: patchRename_def getProp_def)
  have acc: "checkApiAccessScope (db world0) \<lparr>projectId = ''p1''\<rparr>
        [JObj [(''type'', JStr ''observation''), (''id'', getProp (body patchRename) ''generationId'')]]"
    unfolding g
    by (simp add: checkApiAccessScope_def ownerProject_def world0_def store0_def row1_def row2_def getProp_def)
  have f: "getProp (body patchRename) ''name'' = JStr ''foo''"
    by (simp add: patchRename_def getProp_def)
  have m: "httpMethod patchRename \<noteq> ''POST''" by (simp add: patchRename_def)
  have h: "handler env0 patchRename world0 = (MethodNotAllowed, world0\<lparr>calls := [RunCors]\<rparr>)"
    by (simp add: handler_not_POST[OF m] called_def world0_def)
  have st: "observations (db (snd (handler env0 patchRename world0))) ''g1'' = Some row1"
    unfolding h by (simp add: world0_def stored_g1)
  have r: "getProp row1 ''name'' = JStr ''first''"
    by (simp add: row1_def getProp_def)
  have pd: "patchData (body patchRename) =
        JObj [(''endTime'', JUndefined), (''input'', JUndefined), (''output'', JUndefined),
              (''usage'', JObj [(''totalTokens'', JUndefined)]), (''name'', JStr ''foo'')]"
    by (simp add: patchRename_def patchData_def Let_def getProp_def restProps_def
        nullishCoalesce_def calculatedUsage_def jsOr_def isNullish_def fromEntries_def
        assign_Nil assign_Cons)
  have br: "snd (patchBranch env0 \<lparr>projectId = ''p1''\<rparr> (body patchRename) world0) =
        \<lparr>db = store0\<lparr>observations := (observations store0)(''g1'' \<mapsto>
                 JObj [(''id'', JStr ''g1''), (''traceId'', JStr ''t1''),
                       (''parentObservationId'', JNull), (''type'', JStr ''GENERATION''),
                       (''name'', JStr ''foo''), (''startTime'', JDate ''2023-07-01T10:00:00Z''),
                       (''output'', JObj [(''completion'', JStr ''hello'')]),
                       (''usage'', JObj [(''totalTokens'', JUndefined)])])\<rparr>,
         calls = [ParsePatch (body patchRename),
                  CheckApiAccessScope \<lparr>projectId = ''p1''\<rparr>
                    [JObj [(''type'', JStr ''observation''), (''id'', JStr ''g1'')]],
                  ObservationUpdate (JObj [(''id'', JStr ''g1'')]) (patchData (body patchRename))]\<rparr>"
    using acc
    by (simp add: patchBranch_def Let_def parse g called_def world0_def pd
        prisma_observation_update_def getProp_Cons stored_g1 row1_def assign_Nil assign_Cons)
  show ?thesis
    apply (intro conjI)
    apply (rule auth) apply (rule parse) apply (rule acc) apply (rule f)
    apply (rule h) apply (simp add: h) apply (rule st) apply (rule r)
    apply (rule pd) apply (rule br)
    done
qed

text \<open>
  Claim C8 at a PATCH request. The request has no credential, which the verifier
  rejects; a POST request without a credential is answered 401. The handler answers the
  patch 405 at line 63, and the verifier is never called.
\<close>

theorem patch_invalid_credential_405:
  "verifyAuthHeaderAndReturnScope env0 (authorization patchNoCredential) = InvalidKey ''Invalid credentials''
   \<and> GenerationPatchSchema (isDatetime env0) (body patchNoCredential) = Some (body patchNoCredential)
   \<and> handler env0 patchNoCredential world0 = (MethodNotAllowed, world0\<lparr>calls := [RunCors]\<rparr>)
   \<and> status (fst (handler env0 patchNoCredential world0)) = Some 405
   \<and> handler env0 postNoCredential world0 =
       (Unauthorized ''Invalid credentials'', world0\<lparr>calls := [RunCors, VerifyAuth JUndefined]\<rparr>)
   \<and> status (fst (handler env0 postNoCredential world0)) = Some 401"
proof -
  have a: "verifyAuthHeaderAndReturnScope env0 (authorization patchNoCredential) = InvalidKey ''Invalid credentials''"
    by (simp add: env0_def patchNoCredential_def)
  have dt: "isDatetime env0 = sampleDatetime" by (simp add: env0_def)
  have m: "httpMethod patchNoCredential \<noteq> ''POST''" by (simp add: patchNoCredential_def)
  have h: "handler env0 patchNoCredential world0 = (MethodNotAllowed, world0\<lparr>calls := [RunCors]\<rparr>)"
    by (simp add: handler_not_POST[OF m] called_def world0_def)
  have m2: "httpMethod postNoCredential = ''POST''" by (simp add: postNoCredential_def)
  have a2: "verifyAuthHeaderAndReturnScope env0 (authorization postNoCredential) = InvalidKey ''Invalid credentials''"
    by (simp add: postNoCredential_def env0_def)
  have h2: "handler env0 postNoCredential world0 =
       (Unauthorized ''Invalid credentials'', world0\<lparr>calls := [RunCors, VerifyAuth JUndefined]\<rparr>)"
    by (simp add: handler_POST_invalid[OF m2 a2] called_def world0_def) (simp add: postNoCredential_def)
  from a dt patchNoCredential_parse h h2 show ?thesis by simp
qed

section \<open>Token usage (claim C2)\<close>

text \<open>
  Claim C2, as the code has it. For a usage object that passes the usage schema, the
  derived \<^verbatim>\<open>totalTokens\<close> is the sum of the prompt and completion counts (a missing
  one counting 0) when the supplied \<^verbatim>\<open>totalTokens\<close> is falsy (absent, null or 0)
  and at least one of \<^verbatim>\<open>promptTokens\<close> and \<^verbatim>\<open>completionTokens\<close> is truthy
  (a number other than 0); in every other case it is the supplied \<^verbatim>\<open>totalTokens\<close>
  unchanged, so an absent one stays absent. The sum is the sum of two doubles. The
  prompt and completion counts pass through, and an absent usage gives an absent result.
\<close>

theorem calculatedUsage_totalTokens:
  assumes "usageSchema u = Some p"
  shows "getProp (calculatedUsage p) ''totalTokens'' =
           (if \<not> truthy (getProp u ''totalTokens'') \<and>
               (truthy (getProp u ''promptTokens'') \<or> truthy (getProp u ''completionTokens''))
            then JNum (numAdd (tokenCount (getProp u ''promptTokens'')) (tokenCount (getProp u ''completionTokens'')))
            else getProp u ''totalTokens'')
         \<and> getProp (calculatedUsage p) ''promptTokens'' = getProp u ''promptTokens''
         \<and> getProp (calculatedUsage p) ''completionTokens'' = getProp u ''completionTokens''
         \<and> calculatedUsage JUndefined = JUndefined
         \<and> calculatedUsage JNull = JUndefined"
proof -
  from assms obtain out where p: "p = JObj out"
    unfolding usageSchema_def by (blast dest: zObject_Some)
  note pt = usageSchema_props[OF assms, of "''promptTokens''", simplified]
  note ct = usageSchema_props[OF assms, of "''completionTokens''", simplified]
  note tt = usageSchema_props[OF assms, of "''totalTokens''", simplified]
  have sum: "jsAdd (nullishCoalesce (getProp u ''promptTokens'') (JNum (Fin 0)))
                   (nullishCoalesce (getProp u ''completionTokens'') (JNum (Fin 0)))
             = JNum (numAdd (tokenCount (getProp u ''promptTokens'')) (tokenCount (getProp u ''completionTokens'')))"
    using pt ct by (intro add_or_zero) simp_all
  have total: "getProp (calculatedUsage p) ''totalTokens'' =
           (if \<not> truthy (getProp u ''totalTokens'') \<and>
               (truthy (getProp u ''promptTokens'') \<or> truthy (getProp u ''completionTokens''))
            then JNum (numAdd (tokenCount (getProp u ''promptTokens'')) (tokenCount (getProp u ''completionTokens'')))
            else getProp u ''totalTokens'')"
    using pt tt ct sum unfolding p calculatedUsage_obj by (simp add: getProp_setProp truthy_jsOr)
  have prompt: "getProp (calculatedUsage p) ''promptTokens'' = getProp u ''promptTokens''"
    using pt unfolding p calculatedUsage_obj by (simp add: getProp_setProp)
  have completion: "getProp (calculatedUsage p) ''completionTokens'' = getProp u ''completionTokens''"
    using ct unfolding p calculatedUsage_obj by (simp add: getProp_setProp)
  have absent: "calculatedUsage JUndefined = JUndefined \<and> calculatedUsage JNull = JUndefined"
    by (simp add: calculatedUsage_def)
  from total prompt completion absent show ?thesis by blast
qed

text \<open>
  The claim as the spec words it tests presence where the code tests truthiness: with
  \<^verbatim>\<open>{promptTokens: 0}\<close> the total is absent and a prompt count is present, so the
  spec asks for the sum \<open>0 + 0\<close>, and the code leaves the total absent.
\<close>

theorem calculatedUsage_present_zero_counterexample:
  "usageSchema (JObj [(''promptTokens'', JNum (Fin 0))]) = Some (JObj [(''promptTokens'', JNum (Fin 0))])
   \<and> getProp (JObj [(''promptTokens'', JNum (Fin 0))]) ''totalTokens'' = JUndefined
   \<and> getProp (JObj [(''promptTokens'', JNum (Fin 0))]) ''promptTokens'' = JNum (Fin 0)
   \<and> getProp (calculatedUsage (JObj [(''promptTokens'', JNum (Fin 0))])) ''totalTokens'' = JUndefined
   \<and> getProp (calculatedUsage (JObj [(''promptTokens'', JNum (Fin 0))])) ''totalTokens''
       \<noteq> jsAdd (nullishCoalesce (getProp (JObj [(''promptTokens'', JNum (Fin 0))]) ''promptTokens'') (JNum (Fin 0)))
                (nullishCoalesce (getProp (JObj [(''promptTokens'', JNum (Fin 0))]) ''completionTokens'') (JNum (Fin 0)))"
  by (simp add: usageSchema_def calculatedUsage_def getProp_def hasKey_def zNullish_def isNullish_def
      nullishCoalesce_def jsOr_def assign_def)

text \<open>
  The theorem at \<^verbatim>\<open>{promptTokens: 10, completionTokens: 5}\<close>: the total is 15.
\<close>

theorem calculatedUsage_totalTokens_witness:
  "usageSchema (JObj [(''promptTokens'', JNum (num 10)), (''completionTokens'', JNum (num 5))]) =
     Some (JObj [(''promptTokens'', JNum (num 10)), (''completionTokens'', JNum (num 5))])
   \<and> getProp (calculatedUsage (JObj [(''promptTokens'', JNum (num 10)), (''completionTokens'', JNum (num 5))]))
        ''totalTokens'' = JNum (num 15)"
  using calculatedUsage_totalTokens[OF usageSchema_sample1] usageSchema_sample1
  by (simp add: getProp_def num_not_NaN num_not_zero numAdd_10_5)

section \<open>The keys a patch never sets (claim C10)\<close>

text \<open>
  Claim C10. For every payload the patch schema accepts, whatever keys the raw payload
  carries, the data of the update has none of the keys \<^verbatim>\<open>traceId\<close>,
  \<^verbatim>\<open>startTime\<close>, \<^verbatim>\<open>parentObservationId\<close> and \<^verbatim>\<open>type\<close>: its keys are among the
  four the handler sets and the six optional fields of the schema. The update of an
  existing record with that data leaves the stored values of the four keys as they
  were.
\<close>

theorem patchData_never_moves:
  assumes parse: "GenerationPatchSchema dt b = Some p"
    and stored: "observations st i = Some row"
  shows "\<not> hasKey (patchData p) ''traceId''
       \<and> \<not> hasKey (patchData p) ''startTime''
       \<and> \<not> hasKey (patchData p) ''parentObservationId''
       \<and> \<not> hasKey (patchData p) ''type''
       \<and> fst ` set (entries (patchData p)) \<subseteq>
           {''endTime'', ''input'', ''output'', ''usage'',
            ''name'', ''model'', ''modelParameters'', ''metadata'', ''level'', ''statusMessage''}
       \<and> (\<exists>row'. prisma_observation_update (JObj [(''id'', JStr i)]) (patchData p) st =
                     Inr (row', st\<lparr>observations := (observations st)(i \<mapsto> row')\<rparr>)
                \<and> getProp row' ''traceId'' = getProp row ''traceId''
                \<and> getProp row' ''startTime'' = getProp row ''startTime''
                \<and> getProp row' ''parentObservationId'' = getProp row ''parentObservationId''
                \<and> getProp row' ''type'' = getProp row ''type'')"
proof -
  note k = patchData_keys[OF parse]
  have sub: "fst ` set (entries (patchData p)) \<subseteq>
           {''endTime'', ''input'', ''output'', ''usage'',
            ''name'', ''model'', ''modelParameters'', ''metadata'', ''level'', ''statusMessage''}"
    using k by simp
  have no: "\<not> hasKey (patchData p) ''traceId''" "\<not> hasKey (patchData p) ''startTime''"
    "\<not> hasKey (patchData p) ''parentObservationId''" "\<not> hasKey (patchData p) ''type''"
    using sub by (auto simp: hasKey_def)
  have und: "\<not> hasKey (patchData p) k' \<Longrightarrow> getProp (patchData p) k' = JUndefined" for k'
    by (simp add: hasKey_def getProp_def map_of_eq_None_iff[THEN iffD2])
  from update_existing[OF conjunct1[OF k] stored] obtain row' where
    upd: "prisma_observation_update (JObj [(''id'', JStr i)]) (patchData p) st =
           Inr (row', st\<lparr>observations := (observations st)(i \<mapsto> row')\<rparr>)"
    and r: "\<And>k. getProp row' k = (if getProp (patchData p) k = JUndefined then getProp row k else getProp (patchData p) k)"
    by blast
  have "getProp row' ''traceId'' = getProp row ''traceId''"
    "getProp row' ''startTime'' = getProp row ''startTime''"
    "getProp row' ''parentObservationId'' = getProp row ''parentObservationId''"
    "getProp row' ''type'' = getProp row ''type''"
    using no r by (simp_all add: und)
  with no sub upd show ?thesis by blast
qed

text \<open>
  The theorem at a patch of \<open>g1\<close> whose raw payload supplies all four keys.
\<close>

theorem patchData_never_moves_witness:
  "GenerationPatchSchema sampleDatetime patchMove =
     Some (JObj [(''generationId'', JStr ''g1''), (''usage'', JObj [])])
   \<and> observations store0 ''g1'' = Some row1
   \<and> getProp patchMove ''traceId'' = JStr ''t2''
   \<and> getProp patchMove ''type'' = JStr ''SPAN''
   \<and> \<not> hasKey (patchData (JObj [(''generationId'', JStr ''g1''), (''usage'', JObj [])])) ''traceId''
   \<and> \<not> hasKey (patchData (JObj [(''generationId'', JStr ''g1''), (''usage'', JObj [])])) ''type''
   \<and> (case prisma_observation_update (JObj [(''id'', JStr ''g1'')])
              (patchData (JObj [(''generationId'', JStr ''g1''), (''usage'', JObj [])])) store0 of
         Inl err \<Rightarrow> JUndefined
       | Inr (row', st') \<Rightarrow> getProp row' ''traceId'') = JStr ''t1''
   \<and> (case prisma_observation_update (JObj [(''id'', JStr ''g1'')])
              (patchData (JObj [(''generationId'', JStr ''g1''), (''usage'', JObj [])])) store0 of
         Inl err \<Rightarrow> JUndefined
       | Inr (row', st') \<Rightarrow> getProp row' ''type'') = JStr ''GENERATION''"
proof -
  have r: "getProp row1 ''traceId'' = JStr ''t1''" "getProp row1 ''type'' = JStr ''GENERATION''"
    by (simp_all add: row1_def getProp_def)
  have m: "getProp patchMove ''traceId'' = JStr ''t2''" "getProp patchMove ''type'' = JStr ''SPAN''"
    by (simp_all add: patchMove_def getProp_def)
  from patchData_never_moves[OF patchMove_parse stored_g1] patchMove_parse stored_g1
  show ?thesis by (auto simp: r m)
qed

section \<open>The built observation (claim C6)\<close>

text \<open>
  Claim C6, as the code has it. For every payload the create schema accepts, the data
  of the create has \<^verbatim>\<open>output\<close> set to \<^verbatim>\<open>{completion: value}\<close> exactly when the
  supplied completion is a non-empty string, and unset when it is null, absent or the
  empty string; its \<^verbatim>\<open>input\<close> is the supplied prompt unmodified when that is neither
  null nor absent, and unset otherwise.
\<close>

theorem createData_output_input:
  assumes "GenerationsCreateSchema dt b = Some p"
  shows "getProp (createData sc p) ''output'' =
           (case getProp b ''completion'' of
              JStr s \<Rightarrow> if s = [] then JUndefined else JObj [(''completion'', JStr s)]
            | _ \<Rightarrow> JUndefined)
         \<and> getProp (createData sc p) ''input'' =
           (if getProp b ''prompt'' = JNull \<or> getProp b ''prompt'' = JUndefined then JUndefined
            else getProp b ''prompt'')"
proof -
  note c = create_parse_strings[OF assms, of "''completion''", simplified]
  have pr: "getProp p ''prompt'' = getProp b ''prompt''"
    using create_parse_unknowns[OF assms, of "''prompt''"] by simp
  have out: "getProp (createData sc p) ''output'' =
           (case getProp b ''completion'' of
              JStr s \<Rightarrow> if s = [] then JUndefined else JObj [(''completion'', JStr s)]
            | _ \<Rightarrow> JUndefined)"
    using c unfolding createData_props by (auto simp: getProp_Cons)
  have inp: "getProp (createData sc p) ''input'' =
           (if getProp b ''prompt'' = JNull \<or> getProp b ''prompt'' = JUndefined then JUndefined
            else getProp b ''prompt'')"
    unfolding createData_props by (simp add: getProp_Cons pr nullishCoalesce_def isNullish_def)
  from out inp show ?thesis by blast
qed

text \<open>
  The claim wraps every non-null completion. The empty string is not null, and the
  code, which tests the completion's truthiness, leaves the output unset for it.
\<close>

theorem createData_empty_completion_counterexample:
  "GenerationsCreateSchema sampleDatetime bodyEmptyCompletion = Some bodyEmptyCompletion
   \<and> getProp bodyEmptyCompletion ''completion'' = JStr []
   \<and> getProp bodyEmptyCompletion ''completion'' \<noteq> JNull
   \<and> getProp (createData \<lparr>projectId = ''p1''\<rparr> bodyEmptyCompletion) ''output'' = JUndefined
   \<and> getProp (createData \<lparr>projectId = ''p1''\<rparr> bodyEmptyCompletion) ''output''
       \<noteq> JObj [(''completion'', getProp bodyEmptyCompletion ''completion'')]"
proof -
  have c: "getProp bodyEmptyCompletion ''completion'' = JStr []"
    by (simp add: bodyEmptyCompletion_def getProp_def)
  have "getProp (createData \<lparr>projectId = ''p1''\<rparr> bodyEmptyCompletion) ''output'' = JUndefined"
    unfolding createData_props by (simp add: getProp_Cons c)
  with c bodyEmptyCompletion_parse show ?thesis by simp
qed

text \<open>
  The theorem at a payload with a prompt and a completion.
\<close>

theorem createData_output_input_witness:
  "GenerationsCreateSchema sampleDatetime bodyHello = Some bodyHello
   \<and> getProp (createData \<lparr>projectId = ''p1''\<rparr> bodyHello) ''output'' = JObj [(''completion'', JStr ''hello'')]
   \<and> getProp (createData \<lparr>projectId = ''p1''\<rparr> bodyHello) ''input'' = JStr ''hi''"
  using createData_output_input[OF bodyHello_parse, of "\<lparr>projectId = ''p1''\<rparr>"] bodyHello_parse
  by (simp add: bodyHello_def getProp_def)

section \<open>The trace of a create (claims C7 and C9)\<close>

text \<open>
  Claim C7. Every POST request with a valid credential and a payload the create schema
  accepts that omits \<^verbatim>\<open>traceId\<close> (the key is absent, or null) is served, provided
  the parent, if one is supplied, passes the access check and the two ids the store
  draws are free: the handler answers 201 with the created observation; the store has
  one new trace, in the project of the credential's scope, named by the request's
  \<^verbatim>\<open>name\<close> when the request has one and unnamed (null) otherwise; the created
  observation is stored and its \<^verbatim>\<open>traceId\<close> is the id of that new trace.
\<close>

theorem create_without_traceId_new_trace:
  assumes post: "httpMethod req = ''POST''"
    and auth: "verifyAuthHeaderAndReturnScope e (authorization req) = ValidKey sc"
    and parse: "GenerationsCreateSchema (isDatetime e) (body req) = Some p"
    and omitted: "getProp (body req) ''traceId'' = JUndefined \<or> getProp (body req) ''traceId'' = JNull"
    and access: "checkApiAccessScope (db w) sc
                   (createRefs (getProp (body req) ''traceId'') (getProp (body req) ''parentObservationId''))"
    and fresh_trace: "traces (db w) (cuid e (cuids (db w))) = None"
    and fresh_observation: "observations (db w) (cuid e (Suc (cuids (db w)))) = None"
  shows "\<exists>obs. fst (handler e req w) = Created obs
           \<and> status (fst (handler e req w)) = Some 201
           \<and> traces (db (snd (handler e req w))) = (traces (db w))(cuid e (cuids (db w)) \<mapsto>
                \<lparr>trace_name = (if getProp (body req) ''name'' = JUndefined then JNull
                               else getProp (body req) ''name''),
                 trace_projectId = projectId sc\<rparr>)
           \<and> observations (db (snd (handler e req w))) =
                (observations (db w))(cuid e (Suc (cuids (db w))) \<mapsto> obs)
           \<and> getProp obs ''traceId'' = JStr (cuid e (cuids (db w)))"
proof -
  from omitted have "\<not> truthy (getProp (body req) ''traceId'')" by auto
  from create_falsy_traceId_served[OF post auth parse this access fresh_trace fresh_observation]
  show ?thesis .
qed

text \<open>
  The theorem at a create named \<open>chat\<close> without a trace id: the trace \<open>c\<close> is
  new, named \<open>chat\<close>, in project \<open>p1\<close>, and the observation \<open>cc\<close> points to it.
\<close>

theorem create_without_traceId_new_trace_witness:
  "httpMethod postNoTrace = ''POST''
   \<and> verifyAuthHeaderAndReturnScope env0 (authorization postNoTrace) = ValidKey \<lparr>projectId = ''p1''\<rparr>
   \<and> GenerationsCreateSchema (isDatetime env0) (body postNoTrace) = Some (body postNoTrace)
   \<and> getProp (body postNoTrace) ''traceId'' = JUndefined
   \<and> checkApiAccessScope (db world0) \<lparr>projectId = ''p1''\<rparr>
        (createRefs (getProp (body postNoTrace) ''traceId'') (getProp (body postNoTrace) ''parentObservationId''))
   \<and> traces (db world0) (cuid env0 (cuids (db world0))) = None
   \<and> observations (db world0) (cuid env0 (Suc (cuids (db world0)))) = None
   \<and> status (fst (handler env0 postNoTrace world0)) = Some 201
   \<and> traces (db (snd (handler env0 postNoTrace world0))) ''c'' =
        Some \<lparr>trace_name = JStr ''chat'', trace_projectId = ''p1''\<rparr>
   \<and> observations (db (snd (handler env0 postNoTrace world0))) ''cc'' =
        Some (JObj [(''id'', JStr ''cc''), (''traceId'', JStr ''c''), (''parentObservationId'', JNull),
                    (''type'', JStr ''GENERATION''), (''name'', JStr ''chat''),
                    (''usage'', JObj [(''totalTokens'', JUndefined)])])"
proof -
  have m: "httpMethod postNoTrace = ''POST''" by (simp add: postNoTrace_def)
  have a: "verifyAuthHeaderAndReturnScope env0 (authorization postNoTrace) = ValidKey \<lparr>projectId = ''p1''\<rparr>"
    by (simp add: postNoTrace_def env0_def)
  have p: "GenerationsCreateSchema (isDatetime env0) (body postNoTrace) = Some (body postNoTrace)"
    using postNoTrace_parse by (simp add: env0_def)
  have om: "getProp (body postNoTrace) ''traceId'' = JUndefined"
    by (simp add: postNoTrace_def getProp_def)
  have pa: "getProp (body postNoTrace) ''parentObservationId'' = JUndefined"
    by (simp add: postNoTrace_def getProp_def)
  have n: "getProp (body postNoTrace) ''name'' = JStr ''chat''"
    by (simp add: postNoTrace_def getProp_def)
  have acc: "checkApiAccessScope (db world0) \<lparr>projectId = ''p1''\<rparr>
        (createRefs (getProp (body postNoTrace) ''traceId'') (getProp (body postNoTrace) ''parentObservationId''))"
    by (simp add: om pa createRefs_def checkApiAccessScope_def)
  have c: "cuid env0 (cuids (db world0)) = ''c''" "cuid env0 (Suc (cuids (db world0))) = ''cc''"
    by (simp_all add: env0_def world0_def store0_def)
  have ft: "traces (db world0) (cuid env0 (cuids (db world0))) = None"
    unfolding c by (simp add: world0_def store0_def)
  have fo: "observations (db world0) (cuid env0 (Suc (cuids (db world0)))) = None"
    unfolding c by (simp add: world0_def store0_def)
  from create_without_traceId_new_trace[OF m a p disjI1[OF om] acc ft fo]
    m a p om acc ft fo postNoTrace_created
  show ?thesis by (auto simp: c n)
qed

text \<open>
  Claim C9. Every POST request with a valid credential whose payload passes the create
  schema with \<^verbatim>\<open>traceId\<close> the empty string is served like a create without the key,
  provided the parent, if one is supplied, passes the access check and the two ids the
  store draws are free: the access check is called with no trace ref (with the parent
  ref alone, when a parent is supplied); the create is called with data whose trace
  relation creates a trace and connects to none; the handler answers 201; the store
  has one new trace, under an id that was free before (so it is no existing trace of
  the empty id), in the project of the scope and named by the request; the created
  observation is stored and points to that trace. The response and the store are those
  of the same request with the key \<^verbatim>\<open>traceId\<close> removed from the payload, and so are
  the calls, but for the payload the parse is handed.
\<close>

theorem empty_traceId_as_omitted:
  assumes post: "httpMethod req = ''POST''"
    and auth: "verifyAuthHeaderAndReturnScope e (authorization req) = ValidKey sc"
    and empty: "getProp (body req) ''traceId'' = JStr []"
    and parse: "GenerationsCreateSchema (isDatetime e) (body req) = Some p"
    and access: "checkApiAccessScope (db w) sc
                   (if truthy (getProp (body req) ''parentObservationId'')
                    then [JObj [(''type'', JStr ''observation''),
                                (''id'', getProp (body req) ''parentObservationId'')]]
                    else [])"
    and fresh_trace: "traces (db w) (cuid e (cuids (db w))) = None"
    and fresh_observation: "observations (db w) (cuid e (Suc (cuids (db w)))) = None"
  shows "calls (snd (handler e req w)) =
           calls w @ [RunCors, VerifyAuth (authorization req), ParseCreate (body req),
                      CheckApiAccessScope sc
                        (if truthy (getProp (body req) ''parentObservationId'')
                         then [JObj [(''type'', JStr ''observation''),
                                     (''id'', getProp (body req) ''parentObservationId'')]]
                         else []),
                      ObservationCreate (createData sc p)]
         \<and> getProp (createData sc p) ''trace'' =
             JObj [(''create'', JObj
                     [(''name'', getProp (body req) ''name''),
                      (''project'', JObj [(''connect'', JObj [(''id'', JStr (projectId sc))])])])]
         \<and> status (fst (handler e req w)) = Some 201
         \<and> (\<exists>obs. fst (handler e req w) = Created obs
                \<and> getProp obs ''traceId'' = JStr (cuid e (cuids (db w)))
                \<and> observations (db (snd (handler e req w))) =
                     (observations (db w))(cuid e (Suc (cuids (db w))) \<mapsto> obs))
         \<and> traces (db (snd (handler e req w))) = (traces (db w))(cuid e (cuids (db w)) \<mapsto>
                \<lparr>trace_name = (if getProp (body req) ''name'' = JUndefined then JNull
                               else getProp (body req) ''name''),
                 trace_projectId = projectId sc\<rparr>)
         \<and> (traces (db w) [] = None \<or> cuid e (cuids (db w)) \<noteq> [])
         \<and> fst (handler e req w) = fst (handler e (req\<lparr>body := deleteProp ''traceId'' (body req)\<rparr>) w)
         \<and> db (snd (handler e req w)) = db (snd (handler e (req\<lparr>body := deleteProp ''traceId'' (body req)\<rparr>) w))
         \<and> filter (\<lambda>c. \<not> isParseCall c) (calls (snd (handler e req w))) =
             filter (\<lambda>c. \<not> isParseCall c)
               (calls (snd (handler e (req\<lparr>body := deleteProp ''traceId'' (body req)\<rparr>) w)))"
proof -
  have falsy: "\<not> truthy (getProp (body req) ''traceId'')" by (simp add: empty)
  have refs: "createRefs (getProp (body req) ''traceId'') (getProp (body req) ''parentObservationId'') =
                (if truthy (getProp (body req) ''parentObservationId'')
                 then [JObj [(''type'', JStr ''observation''),
                             (''id'', getProp (body req) ''parentObservationId'')]]
                 else [])"
    by (simp add: createRefs_def empty)
  have access': "checkApiAccessScope (db w) sc
                   (createRefs (getProp (body req) ''traceId'') (getProp (body req) ''parentObservationId''))"
    using access unfolding refs .
  note served = create_falsy_traceId_served[OF post auth parse falsy access' fresh_trace fresh_observation]
  note same = empty_traceId_calls[OF post auth empty parse, of w]
  have new: "traces (db w) [] = None \<or> cuid e (cuids (db w)) \<noteq> []"
    using fresh_trace by (cases "cuid e (cuids (db w)) = []") simp_all
  from served obtain obs where
    c: "fst (handler e req w) = Created obs"
    and s201: "status (fst (handler e req w)) = Some 201"
    and tr: "traces (db (snd (handler e req w))) = (traces (db w))(cuid e (cuids (db w)) \<mapsto>
                \<lparr>trace_name = (if getProp (body req) ''name'' = JUndefined then JNull
                               else getProp (body req) ''name''),
                 trace_projectId = projectId sc\<rparr>)"
    and ob: "observations (db (snd (handler e req w))) =
                     (observations (db w))(cuid e (Suc (cuids (db w))) \<mapsto> obs)"
    and ti: "getProp obs ''traceId'' = JStr (cuid e (cuids (db w)))"
    by blast
  have ex: "\<exists>obs. fst (handler e req w) = Created obs
                \<and> getProp obs ''traceId'' = JStr (cuid e (cuids (db w)))
                \<and> observations (db (snd (handler e req w))) =
                     (observations (db w))(cuid e (Suc (cuids (db w))) \<mapsto> obs)"
    using c ti ob by blast
  from same access have cl: "calls (snd (handler e req w)) =
           calls w @ [RunCors, VerifyAuth (authorization req), ParseCreate (body req),
                      CheckApiAccessScope sc
                        (if truthy (getProp (body req) ''parentObservationId'')
                         then [JObj [(''type'', JStr ''observation''),
                                     (''id'', getProp (body req) ''parentObservationId'')]]
                         else []),
                      ObservationCreate (createData sc p)]"
    by simp
  from same have rest: "getProp (createData sc p) ''trace'' =
             JObj [(''create'', JObj
                     [(''name'', getProp (body req) ''name''),
                      (''project'', JObj [(''connect'', JObj [(''id'', JStr (projectId sc))])])])]"
    "fst (handler e req w) = fst (handler e (req\<lparr>body := deleteProp ''traceId'' (body req)\<rparr>) w)"
    "db (snd (handler e req w)) = db (snd (handler e (req\<lparr>body := deleteProp ''traceId'' (body req)\<rparr>) w))"
    "filter (\<lambda>c. \<not> isParseCall c) (calls (snd (handler e req w))) =
             filter (\<lambda>c. \<not> isParseCall c)
               (calls (snd (handler e (req\<lparr>body := deleteProp ''traceId'' (body req)\<rparr>) w)))"
    by blast+
  show ?thesis
    apply (intro conjI)
    apply (rule cl)
    apply (rule rest(1))
    apply (rule s201)
    apply (rule ex)
    apply (rule tr)
    apply (rule new)
    apply (rule rest(2))
    apply (rule rest(3))
    apply (rule rest(4))
    done
qed

text \<open>
  The theorem at a create with \<^verbatim>\<open>traceId: ""\<close>, next to the same create without
  the key.
\<close>

theorem empty_traceId_as_omitted_witness:
  "httpMethod postEmptyTrace = ''POST''
   \<and> verifyAuthHeaderAndReturnScope env0 (authorization postEmptyTrace) = ValidKey \<lparr>projectId = ''p1''\<rparr>
   \<and> getProp (body postEmptyTrace) ''traceId'' = JStr []
   \<and> GenerationsCreateSchema (isDatetime env0) (body postEmptyTrace) = Some (body postEmptyTrace)
   \<and> checkApiAccessScope (db world0) \<lparr>projectId = ''p1''\<rparr> []
   \<and> traces (db world0) (cuid env0 (cuids (db world0))) = None
   \<and> observations (db world0) (cuid env0 (Suc (cuids (db world0)))) = None
   \<and> postEmptyTrace\<lparr>body := deleteProp ''traceId'' (body postEmptyTrace)\<rparr> = postNoTrace
   \<and> status (fst (handler env0 postEmptyTrace world0)) = Some 201
   \<and> traces (db (snd (handler env0 postEmptyTrace world0))) ''c'' =
        Some \<lparr>trace_name = JStr ''chat'', trace_projectId = ''p1''\<rparr>
   \<and> fst (handler env0 postEmptyTrace world0) = fst (handler env0 postNoTrace world0)
   \<and> db (snd (handler env0 postEmptyTrace world0)) = db (snd (handler env0 postNoTrace world0))
   \<and> calls (snd (handler env0 postEmptyTrace world0)) =
        [RunCors, VerifyAuth (JStr ''Basic k1''), ParseCreate (body postEmptyTrace),
         CheckApiAccessScope \<lparr>projectId = ''p1''\<rparr> [],
         ObservationCreate (createData \<lparr>projectId = ''p1''\<rparr> (body postEmptyTrace))]"
proof -
  have m: "httpMethod postEmptyTrace = ''POST''" by (simp add: postEmptyTrace_def)
  have a: "verifyAuthHeaderAndReturnScope env0 (authorization postEmptyTrace) = ValidKey \<lparr>projectId = ''p1''\<rparr>"
    by (simp add: postEmptyTrace_def env0_def)
  have em: "getProp (body postEmptyTrace) ''traceId'' = JStr []"
    by (simp add: postEmptyTrace_def getProp_def)
  have par: "getProp (body postEmptyTrace) ''parentObservationId'' = JUndefined"
    by (simp add: postEmptyTrace_def getProp_def)
  have n: "getProp (body postEmptyTrace) ''name'' = JStr ''chat''"
    by (simp add: postEmptyTrace_def getProp_def)
  have p: "GenerationsCreateSchema (isDatetime env0) (body postEmptyTrace) = Some (body postEmptyTrace)"
    using postEmptyTrace_parse by (simp add: env0_def)
  have d: "postEmptyTrace\<lparr>body := deleteProp ''traceId'' (body postEmptyTrace)\<rparr> = postNoTrace"
    by (simp add: postEmptyTrace_def postNoTrace_def)
  have acc0: "checkApiAccessScope (db world0) \<lparr>projectId = ''p1''\<rparr> []"
    by (simp add: checkApiAccessScope_def)
  have acc: "checkApiAccessScope (db world0) \<lparr>projectId = ''p1''\<rparr>
                   (if truthy (getProp (body postEmptyTrace) ''parentObservationId'')
                    then [JObj [(''type'', JStr ''observation''),
                                (''id'', getProp (body postEmptyTrace) ''parentObservationId'')]]
                    else [])"
    by (simp add: par checkApiAccessScope_def)
  have c: "cuid env0 (cuids (db world0)) = ''c''" "cuid env0 (Suc (cuids (db world0))) = ''cc''"
    by (simp_all add: env0_def world0_def store0_def)
  have ft: "traces (db world0) (cuid env0 (cuids (db world0))) = None"
    unfolding c by (simp add: world0_def store0_def)
  have fo: "observations (db world0) (cuid env0 (Suc (cuids (db world0)))) = None"
    unfolding c by (simp add: world0_def store0_def)
  have hd: "authorization postEmptyTrace = JStr ''Basic k1''" by (simp add: postEmptyTrace_def)
  have w: "calls world0 = []" by (simp add: world0_def)
  note t = empty_traceId_as_omitted[OF m a em p acc ft fo]
  have s: "status (fst (handler env0 postEmptyTrace world0)) = Some 201"
    using t by blast
  have tr: "traces (db (snd (handler env0 postEmptyTrace world0))) ''c'' =
        Some \<lparr>trace_name = JStr ''chat'', trace_projectId = ''p1''\<rparr>"
    using t[THEN conjunct2, THEN conjunct2, THEN conjunct2, THEN conjunct2, THEN conjunct1]
    by (simp add: c n)
  have e1: "fst (handler env0 postEmptyTrace world0) = fst (handler env0 postNoTrace world0)"
    using t d by simp
  have e2: "db (snd (handler env0 postEmptyTrace world0)) = db (snd (handler env0 postNoTrace world0))"
    using t d by simp
  have cl: "calls (snd (handler env0 postEmptyTrace world0)) =
        [RunCors, VerifyAuth (JStr ''Basic k1''), ParseCreate (body postEmptyTrace),
         CheckApiAccessScope \<lparr>projectId = ''p1''\<rparr> [],
         ObservationCreate (createData \<lparr>projectId = ''p1''\<rparr> (body postEmptyTrace))]"
    using t[THEN conjunct1] by (simp add: par hd w)
  show ?thesis
    apply (intro conjI)
    apply (rule m) apply (rule a) apply (rule em) apply (rule p) apply (rule acc0)
    apply (rule ft) apply (rule fo) apply (rule d) apply (rule s) apply (rule tr)
    apply (rule e1) apply (rule e2) apply (rule cl)
    done
qed

end
